theory Spec2Isabelle
  imports Complex_Main "HOL-Library.AList"
begin

section \<open>Conventions\<close>

text \<open>
  The development embeds the pairs-trading simulation engine: \<^verbatim>\<open>signals.py\<close>,
  \<^verbatim>\<open>cointegration.py\<close>, \<^verbatim>\<open>backtester.py\<close> and the profit factor of
  \<^verbatim>\<open>analyzer.py\<close>.

  \<^item> Python and numpy floating-point numbers are modelled by \<^typ>\<open>real\<close>: the arithmetic
    is exact, so rounding, overflow, infinities and NaN are outside the model.
  \<^item> A raised exception is a value \<open>Inl e\<close> of the result type \<open>error + 'a\<close>.
  \<^item> A \<^verbatim>\<open>dict\<close> is an association list that is only ever changed through
    \<^const>\<open>AList.update\<close> and \<^const>\<open>AList.delete\<close> and read through \<^const>\<open>map_of\<close>;
    this keeps the insertion order and makes \<^verbatim>\<open>len\<close> computable.
  \<^item> A record written to the module logger is returned next to the value by the functions
    of \<^verbatim>\<open>cointegration.py\<close>.
  \<^item> The routines of numpy and statsmodels (\<^verbatim>\<open>np.linalg.lstsq\<close>, \<^verbatim>\<open>adfuller\<close>,
    \<^verbatim>\<open>np.mean\<close>, \<^verbatim>\<open>np.std\<close>) are not part of the repository; they are parameters
    (\<open>numlib\<close>), and every theorem holds for every behaviour of them.
\<close>

datatype error = KeyError | IndexError | TypeError | ValueError | ZeroDivisionError | LinAlgError

text \<open>A calendar date (\<^verbatim>\<open>datetime.date\<close>) is its day number.\<close>

type_synonym date = nat

datatype log_record = LogDebug string | LogInfo string | LogWarning string | LogError string

section \<open>signals.py\<close>

datatype Signal = BUY | SELL | CLOSE | HOLD

record SignalGenerator =
  entry_threshold :: real
  exit_threshold :: real

record signal_result =
  signal :: Signal
  zscore :: real
  confidence :: real

text \<open>
  \<open>position_open\<close> is the truth value of the Python argument (\<^verbatim>\<open>None\<close> is false, a
  \<^verbatim>\<open>Trade\<close> object or a non-empty string is true). The division by
  \<^verbatim>\<open>self.exit_threshold\<close> is only reached when \<open>\<bar>z\<bar> < exit_threshold\<close>, so its divisor
  is positive. The division by \<^verbatim>\<open>self.entry_threshold\<close> is reached with \<open>\<bar>z\<bar>\<close> above the
  threshold; the engine passes a \<^verbatim>\<open>numpy.float64\<close> z-score, for which a zero divisor
  yields \<^verbatim>\<open>inf\<close> and no exception, and \<^verbatim>\<open>min(inf, 1.0)\<close> is 1.
\<close>

definition generate_signal :: "SignalGenerator \<Rightarrow> real \<Rightarrow> bool \<Rightarrow> signal_result" where
  "generate_signal sg z position_open =
     (if position_open \<and> \<bar>z\<bar> < exit_threshold sg then
        \<lparr>signal = CLOSE, zscore = z,
         confidence = min (1 - \<bar>z\<bar> / exit_threshold sg) 1\<rparr>
      else if \<not> position_open then
        (if z < - entry_threshold sg then
           \<lparr>signal = BUY, zscore = z,
            confidence = (if entry_threshold sg = 0 then 1
                          else min ((\<bar>z\<bar> - entry_threshold sg) / entry_threshold sg) 1)\<rparr>
         else if z > entry_threshold sg then
           \<lparr>signal = SELL, zscore = z,
            confidence = (if entry_threshold sg = 0 then 1
                          else min ((\<bar>z\<bar> - entry_threshold sg) / entry_threshold sg) 1)\<rparr>
         else \<lparr>signal = HOLD, zscore = z, confidence = min 0 1\<rparr>)
      else \<lparr>signal = HOLD, zscore = z, confidence = min 0 1\<rparr>)"

section \<open>cointegration.py\<close>

record adf_result =
  adf_statistic :: real
  pvalue :: real
  usedlag :: nat
  nobs :: nat
  critical_values :: "(string \<times> real) list"
  ic_best :: real

text \<open>
  The library routines. \<open>lstsq price2 price1\<close> is the least-squares fit of \<open>price1\<close> on
  \<open>[1, price2]\<close> and yields \<open>(intercept, slope)\<close> or raises; \<open>adfuller series maxlag\<close>
  yields the six results of the test or raises with a message.
\<close>

record numlib =
  lstsq :: "real list \<Rightarrow> real list \<Rightarrow> error + (real \<times> real)"
  adfuller :: "real list \<Rightarrow> nat option \<Rightarrow> string + adf_result"
  np_mean :: "real list \<Rightarrow> real"
  np_std :: "real list \<Rightarrow> real"

record CointegrationTester =
  min_pvalue :: real

text \<open>
  The dictionary returned by \<^verbatim>\<open>test_cointegration\<close>. A field is \<open>None\<close> when the
  dictionary holds \<^verbatim>\<open>None\<close> under the key or does not have the key.
\<close>

record coint_result =
  cointegrated :: bool
  adf_pvalue :: "real option"
  coint_adf_statistic :: "real option"
  hedge_ratio :: real
  spread_mean :: "real option"
  spread_std :: "real option"
  lookback_periods :: "nat option"
  coint_critical_values :: "(string \<times> real) list option"
  coint_error :: "string option"

definition calculate_hedge_ratio :: "numlib \<Rightarrow> real list \<Rightarrow> real list \<Rightarrow> error + real" where
  "calculate_hedge_ratio lib price1 price2 =
     (case lstsq lib price2 price1 of
        Inl e \<Rightarrow> Inl e
      | Inr beta \<Rightarrow> Inr (snd beta))"

definition calculate_spread :: "real \<Rightarrow> real \<Rightarrow> real \<Rightarrow> real" where
  "calculate_spread price1 price2 h = price1 - (h * price2)"

text \<open>The same expression on arrays, with numpy's broadcasting of one-dimensional arrays.\<close>

definition calculate_spread_arr :: "real list \<Rightarrow> real list \<Rightarrow> real \<Rightarrow> error + real list" where
  "calculate_spread_arr price1 price2 h =
     (if length price1 = length price2 then
        Inr (map (\<lambda>(a, b). calculate_spread a b h) (zip price1 price2))
      else if length price2 = 1 then Inr (map (\<lambda>a. calculate_spread a (hd price2) h) price1)
      else if length price1 = 1 then Inr (map (\<lambda>b. calculate_spread (hd price1) b h) price2)
      else Inl ValueError)"

definition adf_test :: "numlib \<Rightarrow> real list \<Rightarrow> nat option \<Rightarrow> adf_result option \<times> log_record list" where
  "adf_test lib series maxlag =
     (case adfuller lib series maxlag of
        Inr r \<Rightarrow> (Some r, [])
      | Inl e \<Rightarrow> (None, [LogError (''ADF test failed: '' @ e)]))"

text \<open>\<^verbatim>\<open>xs[-n:]\<close>: the last \<open>n\<close> elements; all of \<open>xs\<close> when \<open>n = 0\<close> or \<open>n\<close> exceeds the length.\<close>

definition last_n :: "nat \<Rightarrow> 'a list \<Rightarrow> 'a list" where
  "last_n n xs = (if n = 0 then xs else drop (length xs - n) xs)"

definition test_cointegration ::
  "numlib \<Rightarrow> CointegrationTester \<Rightarrow> real list \<Rightarrow> real list \<Rightarrow> nat \<Rightarrow>
     error + (coint_result \<times> log_record list)" where
  "test_cointegration lib ct price1 price2 lookback =
     (let price1_test = (if length price1 > lookback then last_n lookback price1 else price1);
          price2_test = (if length price1 > lookback then last_n lookback price2 else price2)
      in case calculate_hedge_ratio lib price1_test price2_test of
           Inl e \<Rightarrow> Inl e
         | Inr h \<Rightarrow>
            (case calculate_spread_arr price1_test price2_test h of
               Inl e \<Rightarrow> Inl e
             | Inr spread \<Rightarrow>
                (case adf_test lib spread None of
                   (None, lg) \<Rightarrow>
                     Inr (\<lparr>cointegrated = False, adf_pvalue = None, coint_adf_statistic = None,
                           hedge_ratio = h, spread_mean = None, spread_std = None,
                           lookback_periods = None, coint_critical_values = None,
                           coint_error = Some ''ADF test failed''\<rparr>, lg)
                 | (Some r, lg) \<Rightarrow>
                     Inr (\<lparr>cointegrated = (pvalue r < min_pvalue ct),
                           adf_pvalue = Some (pvalue r),
                           coint_adf_statistic = Some (adf_statistic r),
                           hedge_ratio = h,
                           spread_mean = Some (np_mean lib spread),
                           spread_std = Some (np_std lib spread),
                           lookback_periods = Some (length price1_test),
                           coint_critical_values = Some (critical_values r),
                           coint_error = None\<rparr>, lg))))"

definition calculate_zscore :: "real \<Rightarrow> real \<Rightarrow> real \<Rightarrow> real \<times> log_record list" where
  "calculate_zscore current_spread mean sd =
     (if sd = 0 then (0, [LogWarning ''Spread std is 0, cannot calculate Z-score''])
      else ((current_spread - mean) / sd, []))"

section \<open>backtester.py: Trade\<close>

datatype Side = LONG | SHORT

record Trade =
  trade_id :: nat
  pair :: "string \<times> string"
  side :: Side
  entry_time :: date
  entry_price :: real
  entry_quantity :: real
  trade_hedge_ratio :: real
  exit_time :: "date option"
  exit_price :: "real option"
  exit_quantity :: "real option"
  gross_pnl :: "real option"
  net_pnl :: "real option"
  return_pct :: "real option"

text \<open>\<^verbatim>\<open>Trade.__init__\<close>.\<close>

definition new_Trade ::
  "nat \<Rightarrow> string \<times> string \<Rightarrow> Side \<Rightarrow> date \<Rightarrow> real \<Rightarrow> real \<Rightarrow> real \<Rightarrow> Trade" where
  "new_Trade tid pr sd etime eprice qty h =
     \<lparr>trade_id = tid, pair = pr, side = sd, entry_time = etime, entry_price = eprice,
      entry_quantity = qty, trade_hedge_ratio = h, exit_time = None, exit_price = None,
      exit_quantity = None, gross_pnl = None, net_pnl = None, return_pct = None\<rparr>"

text \<open>\<^verbatim>\<open>Trade.close(exit_time, exit_price, exit_quantity, fees)\<close>.\<close>

definition close :: "Trade \<Rightarrow> date \<Rightarrow> real \<Rightarrow> real \<Rightarrow> real \<Rightarrow> Trade" where
  "close t xtime xprice xqty fees =
     (let spread_change_pct =
            (if entry_price t = 0 then 0
             else (xprice - entry_price t) / \<bar>entry_price t\<bar>);
          gross = (if side t = LONG then entry_quantity t * spread_change_pct
                   else - entry_quantity t * spread_change_pct);
          net = gross - fees
      in t\<lparr>exit_time := Some xtime, exit_price := Some xprice, exit_quantity := Some xqty,
            gross_pnl := Some gross, net_pnl := Some net,
            return_pct := Some (if entry_quantity t \<noteq> 0 then (net / entry_quantity t) * 100
                                else 0)\<rparr>)"

section \<open>backtester.py: Backtester\<close>

text \<open>
  A row of a price \<^verbatim>\<open>DataFrame\<close>: the date of its timestamp and its close; the engine reads no other column. \<^verbatim>\<open>price_data\<close> is a dictionary from
  asset names to frames.
\<close>

record row =
  timestamp :: date
  close_price :: real

type_synonym dataframe = "row list"

type_synonym price_data = "(string \<times> dataframe) list"

text \<open>The keys of the configuration dictionary that the engine reads.\<close>

record config =
  cfg_pairs :: "string list"
  cfg_starting_capital :: real
  cfg_min_pvalue :: real
  cfg_entry_threshold :: real
  cfg_exit_threshold :: real
  cfg_risk_per_trade :: real
  cfg_max_position_pct :: real
  cfg_commission_pct :: real

text \<open>
  The attributes of a \<^verbatim>\<open>Backtester\<close> that are assigned after construction, and
  \<^verbatim>\<open>dates\<close>; \<open>next_trade_id\<close> is \<^verbatim>\<open>self.trade_id\<close>. The configuration and the
  price data are never assigned and are passed along.
\<close>

record backtester =
  starting_capital :: real
  current_capital :: real
  equity_curve :: "(date \<times> real) list"
  trades :: "Trade list"
  open_positions :: "((string \<times> string) \<times> Trade) list"
  next_trade_id :: nat
  dates :: "date list"

definition coint_tester :: "config \<Rightarrow> CointegrationTester" where
  "coint_tester cfg = \<lparr>min_pvalue = cfg_min_pvalue cfg\<rparr>"

definition signal_gen :: "config \<Rightarrow> SignalGenerator" where
  "signal_gen cfg =
     \<lparr>entry_threshold = cfg_entry_threshold cfg, exit_threshold = cfg_exit_threshold cfg\<rparr>"

text \<open>\<^verbatim>\<open>set.intersection\<close> without an argument raises \<^verbatim>\<open>TypeError\<close>.\<close>

definition get_common_dates :: "price_data \<Rightarrow> error + date list" where
  "get_common_dates pd =
     (let all_dates = map (\<lambda>df. set (map timestamp df)) (map snd pd)
      in if all_dates = [] then Inl TypeError
         else Inr (sorted_list_of_set (\<Inter> (set all_dates))))"

text \<open>
  \<^verbatim>\<open>Backtester.__init__\<close>; the log line at its end reads \<^verbatim>\<open>self.dates[0]\<close> and raises
  \<^verbatim>\<open>IndexError\<close> when there is no common date.
\<close>

definition init :: "config \<Rightarrow> price_data \<Rightarrow> error + backtester" where
  "init cfg pd =
     (case get_common_dates pd of
        Inl e \<Rightarrow> Inl e
      | Inr ds \<Rightarrow>
          if ds = [] then Inl IndexError
          else Inr \<lparr>starting_capital = cfg_starting_capital cfg,
                    current_capital = cfg_starting_capital cfg,
                    equity_curve = [], trades = [], open_positions = [],
                    next_trade_id = 0, dates = ds\<rparr>)"

definition get_price_at_date :: "price_data \<Rightarrow> string \<Rightarrow> date \<Rightarrow> error + real option" where
  "get_price_at_date pd asset date =
     (case map_of pd asset of
        None \<Rightarrow> Inl KeyError
      | Some df \<Rightarrow>
          (case filter (\<lambda>r. timestamp r = date) df of
             [] \<Rightarrow> Inr None
           | r # _ \<Rightarrow> Inr (Some (close_price r))))"

definition calculate_position_size :: "config \<Rightarrow> real \<Rightarrow> real" where
  "calculate_position_size cfg capital =
     (let position_size = capital * cfg_risk_per_trade cfg;
          max_position = capital * (cfg_max_position_pct cfg / 100)
      in min position_size max_position)"

definition open_trade ::
  "config \<Rightarrow> backtester \<Rightarrow> string \<Rightarrow> string \<Rightarrow> Side \<Rightarrow> date \<Rightarrow> real \<Rightarrow> real \<Rightarrow> backtester" where
  "open_trade cfg st pair1 pair2 sd date spread h =
     (let pair_key = (pair1, pair2);
          position_size = calculate_position_size cfg (current_capital st);
          trade = new_Trade (next_trade_id st) pair_key sd date spread position_size h
      in st\<lparr>open_positions := AList.update pair_key trade (open_positions st),
             next_trade_id := next_trade_id st + 1\<rparr>)"

text \<open>
  \<^verbatim>\<open>_close_trade\<close>; \<^verbatim>\<open>self.open_positions[pair_key]\<close> raises \<^verbatim>\<open>KeyError\<close> when the
  pair has no open position. \<open>trade_net_pnl\<close> reads \<^verbatim>\<open>trade.net_pnl\<close> as a number.
\<close>

definition trade_net_pnl :: "Trade \<Rightarrow> real" where
  "trade_net_pnl t = (case net_pnl t of Some p \<Rightarrow> p | None \<Rightarrow> 0)"

definition close_trade ::
  "config \<Rightarrow> backtester \<Rightarrow> string \<Rightarrow> string \<Rightarrow> date \<Rightarrow> real \<Rightarrow> error + backtester" where
  "close_trade cfg st pair1 pair2 date exit_spread =
     (let pair_key = (pair1, pair2)
      in case map_of (open_positions st) pair_key of
           None \<Rightarrow> Inl KeyError
         | Some trade \<Rightarrow>
             (let fees = entry_price trade * entry_quantity trade * cfg_commission_pct cfg;
                  trade' = close trade date exit_spread (entry_quantity trade) fees
              in Inr (st\<lparr>current_capital := current_capital st + trade_net_pnl trade',
                         trades := trades st @ [trade'],
                         open_positions := AList.delete pair_key (open_positions st)\<rparr>)))"

text \<open>
  The last statement of \<^verbatim>\<open>_process_pair\<close> (\<^verbatim>\<open># Execute signal\<close>): the
  \<^verbatim>\<open>if\<close>/\<^verbatim>\<open>elif\<close> chain on the signal and the position found for the pair.
\<close>

definition execute_signal ::
  "config \<Rightarrow> backtester \<Rightarrow> string \<Rightarrow> string \<Rightarrow> Signal \<Rightarrow> date \<Rightarrow> real \<Rightarrow> real \<Rightarrow>
     error + backtester" where
  "execute_signal cfg st pair1 pair2 sig date current_spread h =
     (let position = map_of (open_positions st) (pair1, pair2)
      in if sig = BUY \<and> position = None then
           Inr (open_trade cfg st pair1 pair2 LONG date current_spread h)
         else if sig = SELL \<and> position = None then
           Inr (open_trade cfg st pair1 pair2 SHORT date current_spread h)
         else if sig = CLOSE \<and> position \<noteq> None then
           close_trade cfg st pair1 pair2 date current_spread
         else Inr st)"

text \<open>
  \<^verbatim>\<open>_process_pair\<close>. A \<^verbatim>\<open>None\<close> mean or standard deviation in the arithmetic raises
  \<^verbatim>\<open>TypeError\<close>. The log records of the tester go to the module logger and are not part
  of the state.
\<close>

definition process_pair ::
  "numlib \<Rightarrow> config \<Rightarrow> price_data \<Rightarrow> backtester \<Rightarrow> string \<Rightarrow> string \<Rightarrow> date \<Rightarrow>
     (string \<times> real) list \<Rightarrow> error + backtester" where
  "process_pair lib cfg pd st pair1 pair2 date current_prices =
     (case map_of pd pair1 of
        None \<Rightarrow> Inl KeyError
      | Some df1 \<Rightarrow>
     (case map_of pd pair2 of
        None \<Rightarrow> Inl KeyError
      | Some df2 \<Rightarrow>
     (let prices1 = map close_price (filter (\<lambda>r. timestamp r \<le> date) df1);
          prices2 = map close_price (filter (\<lambda>r. timestamp r \<le> date) df2)
      in if length prices1 < 252 \<or> length prices2 < 252 then Inr st
         else
     (case test_cointegration lib (coint_tester cfg) prices1 prices2 252 of
        Inl e \<Rightarrow> Inl e
      | Inr (coint, lg) \<Rightarrow>
          if \<not> cointegrated coint then Inr st
          else
     (case map_of current_prices pair1 of
        None \<Rightarrow> Inl KeyError
      | Some p1 \<Rightarrow>
     (case map_of current_prices pair2 of
        None \<Rightarrow> Inl KeyError
      | Some p2 \<Rightarrow>
     (let current_spread = calculate_spread p1 p2 (hedge_ratio coint)
      in case (spread_mean coint, spread_std coint) of
           (Some m, Some s) \<Rightarrow>
             (let z = fst (calculate_zscore current_spread m s);
                  position = map_of (open_positions st) (pair1, pair2);
                  signal_res = generate_signal (signal_gen cfg) z (position \<noteq> None)
              in execute_signal cfg st pair1 pair2 (signal signal_res) date current_spread
                   (hedge_ratio coint))
         | _ \<Rightarrow> Inl TypeError)))))))"

text \<open>
  The first inner loop of \<^verbatim>\<open>run\<close>: \<^verbatim>\<open>if price:\<close> is false for \<^verbatim>\<open>None\<close> and for a
  price of zero.
\<close>

fun collect_prices ::
  "price_data \<Rightarrow> date \<Rightarrow> string list \<Rightarrow> (string \<times> real) list \<Rightarrow> error + (string \<times> real) list" where
  "collect_prices pd date [] current_prices = Inr current_prices"
| "collect_prices pd date (asset # rest) current_prices =
     (case get_price_at_date pd asset date of
        Inl e \<Rightarrow> Inl e
      | Inr price \<Rightarrow>
          collect_prices pd date rest
            (case price of
               None \<Rightarrow> current_prices
             | Some p \<Rightarrow> if p \<noteq> 0 then AList.update asset p current_prices
                         else current_prices))"

text \<open>\<^verbatim>\<open>for pair2 in pairs[i+1:]\<close>, for one \<open>pair1\<close>.\<close>

fun process_rest ::
  "numlib \<Rightarrow> config \<Rightarrow> price_data \<Rightarrow> date \<Rightarrow> (string \<times> real) list \<Rightarrow> string \<Rightarrow> string list \<Rightarrow>
     backtester \<Rightarrow> error + backtester" where
  "process_rest lib cfg pd date cp pair1 [] st = Inr st"
| "process_rest lib cfg pd date cp pair1 (pair2 # rest) st =
     (case process_pair lib cfg pd st pair1 pair2 date cp of
        Inl e \<Rightarrow> Inl e
      | Inr st' \<Rightarrow> process_rest lib cfg pd date cp pair1 rest st')"

text \<open>\<^verbatim>\<open>for i, pair1 in enumerate(pairs)\<close>: the argument is the rest of \<open>pairs\<close> from \<open>i\<close>.\<close>

fun process_pairs ::
  "numlib \<Rightarrow> config \<Rightarrow> price_data \<Rightarrow> date \<Rightarrow> (string \<times> real) list \<Rightarrow> string list \<Rightarrow>
     backtester \<Rightarrow> error + backtester" where
  "process_pairs lib cfg pd date cp [] st = Inr st"
| "process_pairs lib cfg pd date cp (pair1 # rest) st =
     (case process_rest lib cfg pd date cp pair1 rest st of
        Inl e \<Rightarrow> Inl e
      | Inr st' \<Rightarrow> process_pairs lib cfg pd date cp rest st')"

text \<open>The body of the loop over the dates in \<^verbatim>\<open>run\<close>.\<close>

definition run_date ::
  "numlib \<Rightarrow> config \<Rightarrow> price_data \<Rightarrow> backtester \<Rightarrow> date \<Rightarrow> error + backtester" where
  "run_date lib cfg pd st date =
     (case collect_prices pd date (cfg_pairs cfg) [] of
        Inl e \<Rightarrow> Inl e
      | Inr current_prices \<Rightarrow>
          if length current_prices < length (cfg_pairs cfg) then Inr st
          else
            (case process_pairs lib cfg pd date current_prices (cfg_pairs cfg) st of
               Inl e \<Rightarrow> Inl e
             | Inr st' \<Rightarrow>
                 Inr (st'\<lparr>equity_curve := equity_curve st' @ [(date, current_capital st')]\<rparr>)))"

fun run_dates ::
  "numlib \<Rightarrow> config \<Rightarrow> price_data \<Rightarrow> date list \<Rightarrow> backtester \<Rightarrow> error + backtester" where
  "run_dates lib cfg pd [] st = Inr st"
| "run_dates lib cfg pd (date # rest) st =
     (case run_date lib cfg pd st date of
        Inl e \<Rightarrow> Inl e
      | Inr st' \<Rightarrow> run_dates lib cfg pd rest st')"

text \<open>
  \<^verbatim>\<open>run\<close> on a constructed backtester; the dictionary it returns
  (\<^verbatim>\<open>get_results\<close>) is read off the final state.
\<close>

definition run :: "numlib \<Rightarrow> config \<Rightarrow> price_data \<Rightarrow> backtester \<Rightarrow> error + backtester" where
  "run lib cfg pd st = run_dates lib cfg pd (dates st) st"

text \<open>\<^verbatim>\<open>Backtester(config, price_data).run()\<close>.\<close>

definition backtest :: "numlib \<Rightarrow> config \<Rightarrow> price_data \<Rightarrow> error + backtester" where
  "backtest lib cfg pd =
     (case init cfg pd of
        Inl e \<Rightarrow> Inl e
      | Inr st \<Rightarrow> run lib cfg pd st)"

text \<open>
  The states of the engine: the constructed one, and any state that a call of
  \<^verbatim>\<open>_process_pair\<close> or the append to the equity curve produces from one.
\<close>

inductive reachable :: "numlib \<Rightarrow> config \<Rightarrow> price_data \<Rightarrow> backtester \<Rightarrow> bool"
  for lib :: numlib and cfg :: config and pd :: price_data where
  reach_init: "init cfg pd = Inr st \<Longrightarrow> reachable lib cfg pd st"
| reach_pair: "reachable lib cfg pd st \<Longrightarrow>
     process_pair lib cfg pd st pair1 pair2 date cp = Inr st' \<Longrightarrow> reachable lib cfg pd st'"
| reach_sample: "reachable lib cfg pd st \<Longrightarrow>
     reachable lib cfg pd (st\<lparr>equity_curve := equity_curve st @ [(date, current_capital st)]\<rparr>)"

section \<open>analyzer.py: profit factor\<close>

text \<open>The dictionary made by \<^verbatim>\<open>Trade.to_dict\<close>, which the analyzer receives.\<close>

record trade_dict =
  d_trade_id :: nat
  d_pair :: "string \<times> string"
  d_side :: Side
  d_entry_time :: date
  d_entry_price :: real
  d_exit_time :: "date option"
  d_exit_price :: "real option"
  d_gross_pnl :: "real option"
  d_net_pnl :: "real option"
  d_return_pct :: "real option"
  d_days_held :: "int option"

definition to_dict :: "Trade \<Rightarrow> trade_dict" where
  "to_dict t =
     \<lparr>d_trade_id = trade_id t, d_pair = pair t, d_side = side t, d_entry_time = entry_time t,
      d_entry_price = entry_price t, d_exit_time = exit_time t, d_exit_price = exit_price t,
      d_gross_pnl = gross_pnl t, d_net_pnl = net_pnl t, d_return_pct = return_pct t,
      d_days_held = (case exit_time t of None \<Rightarrow> None | Some x \<Rightarrow> Some (int x - int (entry_time t)))\<rparr>"

text \<open>
  \<^verbatim>\<open>_calculate_profit_factor\<close>; comparing a \<^verbatim>\<open>net_pnl\<close> of \<^verbatim>\<open>None\<close> with a number
  raises \<^verbatim>\<open>TypeError\<close>.
\<close>

definition calculate_profit_factor :: "trade_dict list \<Rightarrow> error + real" where
  "calculate_profit_factor ts =
     (if None \<in> set (map d_net_pnl ts) then Inl TypeError
      else
        (let gross_profit = sum_list (filter (\<lambda>p. p > 0) (map (\<lambda>t. the (d_net_pnl t)) ts));
             gross_loss = \<bar>sum_list (filter (\<lambda>p. p < 0) (map (\<lambda>t. the (d_net_pnl t)) ts))\<bar>
         in if gross_loss = 0 then Inr (if gross_profit > 0 then gross_profit / 0.01 else 0)
            else Inr (gross_profit / gross_loss)))"

text \<open>
  Gross profit and gross loss as the sum of the winning trades' net results and the sum
  of the sizes of the losing trades' net results.
\<close>

definition gross_profit_of :: "trade_dict list \<Rightarrow> real" where
  "gross_profit_of ts = (\<Sum>t\<leftarrow>ts. if the (d_net_pnl t) > 0 then the (d_net_pnl t) else 0)"

definition gross_loss_of :: "trade_dict list \<Rightarrow> real" where
  "gross_loss_of ts = (\<Sum>t\<leftarrow>ts. if the (d_net_pnl t) < 0 then \<bar>the (d_net_pnl t)\<bar> else 0)"

section \<open>Properties of the engine's state\<close>

text \<open>The number of open positions whose trade is on the pair \<open>k\<close>.\<close>

definition open_count :: "backtester \<Rightarrow> string \<times> string \<Rightarrow> nat" where
  "open_count st k = length (filter (\<lambda>kt. pair (snd kt) = k) (open_positions st))"

text \<open>
  The open-positions table has one entry per key, every entry is a trade on its key, and
  every trade identifier handed out so far belongs to a trade that is open or closed.
\<close>

definition positions_inv :: "backtester \<Rightarrow> bool" where
  "positions_inv st \<longleftrightarrow>
     distinct (map fst (open_positions st))
     \<and> (\<forall>k t. map_of (open_positions st) k = Some t \<longrightarrow> pair t = k)
     \<and> length (open_positions st) + length (trades st) = next_trade_id st"

definition capital_inv :: "backtester \<Rightarrow> bool" where
  "capital_inv st \<longleftrightarrow>
     current_capital st = starting_capital st + (\<Sum>t\<leftarrow>trades st. trade_net_pnl t)
     \<and> (\<forall>t \<in> set (trades st). net_pnl t \<noteq> None)"

text \<open>
  A date passes the check \<^verbatim>\<open>len(current_prices) < len(pairs)\<close> of \<^verbatim>\<open>run\<close> when the
  configured assets are pairwise different and each has a close on the date that is not
  zero.
\<close>

definition has_price :: "price_data \<Rightarrow> date \<Rightarrow> string \<Rightarrow> bool" where
  "has_price pd date asset =
     (case get_price_at_date pd asset date of
        Inr (Some p) \<Rightarrow> p \<noteq> 0
      | _ \<Rightarrow> False)"

definition tradable :: "price_data \<Rightarrow> config \<Rightarrow> date \<Rightarrow> bool" where
  "tradable pd cfg date \<longleftrightarrow>
     distinct (cfg_pairs cfg) \<and> list_all (has_price pd date) (cfg_pairs cfg)"

text \<open>
  The frames of the configured assets exist and have the same column of timestamps, so
  that the price histories handed to the cointegration test have equal lengths.
\<close>

definition aligned :: "price_data \<Rightarrow> config \<Rightarrow> bool" where
  "aligned pd cfg \<longleftrightarrow>
     (\<forall>a \<in> set (cfg_pairs cfg). \<forall>b \<in> set (cfg_pairs cfg).
        \<exists>dfa dfb. map_of pd a = Some dfa \<and> map_of pd b = Some dfb
          \<and> map timestamp dfa = map timestamp dfb)"

section \<open>Example data\<close>


definition ex_trade :: "Side \<Rightarrow> real \<Rightarrow> real \<Rightarrow> Trade" where
  "ex_trade sd eprice qty = new_Trade 0 (''A'', ''B'') sd 0 eprice qty 1"

definition ex_config :: config where
  "ex_config = \<lparr>cfg_pairs = [''A'', ''B''], cfg_starting_capital = 100000,
      cfg_min_pvalue = 0.05, cfg_entry_threshold = 2.0, cfg_exit_threshold = 0.5,
      cfg_risk_per_trade = 0.02, cfg_max_position_pct = 10, cfg_commission_pct = 0.001\<rparr>"

definition ex_state :: "((string \<times> string) \<times> Trade) list \<Rightarrow> backtester" where
  "ex_state ops = \<lparr>starting_capital = 100000, current_capital = 100000, equity_curve = [],
      trades = [], open_positions = ops, next_trade_id = length ops, dates = [0, 1]\<rparr>"

text \<open>
  A library whose least-squares fit always yields intercept 0 and slope 1, whose
  stationarity test always succeeds with a p-value of 0.01, and which reports a spread
  mean of 0 and a spread standard deviation of 1.
\<close>

definition ex_adf :: adf_result where
  "ex_adf = \<lparr>adf_statistic = -4, pvalue = 0.01, usedlag = 0, nobs = 251,
             critical_values = [], ic_best = 0\<rparr>"

definition ex_lib :: numlib where
  "ex_lib = \<lparr>lstsq = (\<lambda>x y. Inr (0, 1)), adfuller = (\<lambda>s m. Inr ex_adf),
             np_mean = (\<lambda>s. 0), np_std = (\<lambda>s. 1)\<rparr>"

text \<open>
  Two assets on the dates 0 and 1; asset A closes at 0 on date 1.
\<close>

definition ex_zero_data :: price_data where
  "ex_zero_data =
     [(''A'', [\<lparr>timestamp = 0, close_price = 1\<rparr>, \<lparr>timestamp = 1, close_price = 0\<rparr>]),
      (''B'', [\<lparr>timestamp = 0, close_price = 1\<rparr>, \<lparr>timestamp = 1, close_price = 1\<rparr>])]"

text \<open>
  Two assets on the dates 0 to 252. Both close at 7, except that A closes at 11 on date
  251: with the library above the z-score of the spread is 4 on date 251 and 0 elsewhere.
\<close>

definition ex_frame :: "(nat \<Rightarrow> real) \<Rightarrow> nat \<Rightarrow> dataframe" where
  "ex_frame f n = map (\<lambda>i. \<lparr>timestamp = i, close_price = f i\<rparr>) [0..<n]"

definition ex_data :: price_data where
  "ex_data = [(''A'', ex_frame (\<lambda>i. if i = 251 then 11 else 7) 253),
              (''B'', ex_frame (\<lambda>i. 7) 253)]"

text \<open>
  The position that the example run opens on date 251, the trade it closes on date 252,
  the state between the two dates and the final state.
\<close>

definition ex_open :: Trade where
  "ex_open = new_Trade 0 (''A'', ''B'') SHORT 251 4 2000 1"

definition ex_closed :: Trade where
  "ex_closed = ex_open\<lparr>exit_time := Some 252, exit_price := Some 0, exit_quantity := Some 2000,
     gross_pnl := Some 2000, net_pnl := Some 1992, return_pct := Some 99.6\<rparr>"

definition ex_final :: backtester where
  "ex_final = \<lparr>starting_capital = 100000, current_capital = 101992,
      equity_curve = map (\<lambda>d. (d, 100000)) [0..<252] @ [(252, 101992)],
      trades = [ex_closed], open_positions = [], next_trade_id = 1, dates = [0..<253]\<rparr>"

definition ex_mid :: backtester where
  "ex_mid = \<lparr>starting_capital = 100000, current_capital = 100000,
      equity_curve = map (\<lambda>d. (d, 100000)) [0..<252], trades = [],
      open_positions = [((''A'', ''B''), ex_open)], next_trade_id = 1, dates = [0..<253]\<rparr>"

text \<open>
  The final state of the run on the small example.
\<close>

definition ex_zero_final :: backtester where
  "ex_zero_final = \<lparr>starting_capital = 100000, current_capital = 100000,
          equity_curve = [(0, 100000)], trades = [], open_positions = [],
          next_trade_id = 0, dates = [0, 1]\<rparr>"

text \<open>
  The example library with a stationarity test that always raises, and the price history
  of an asset of the example data up to a date.
\<close>

definition ex_fail_lib :: numlib where
  "ex_fail_lib = ex_lib\<lparr>adfuller := (\<lambda>s m. Inl ''sample size is too short'')\<rparr>"

definition ex_history :: "string \<Rightarrow> date \<Rightarrow> real list" where
  "ex_history asset d =
     (case map_of ex_data asset of
        None \<Rightarrow> []
      | Some df \<Rightarrow> map close_price (filter (\<lambda>r. timestamp r \<le> d) df))"



section \<open>Signals\<close>




section \<open>Profit factor\<close>

lemma sum_list_negatives_le_0: "sum_list (filter (\<lambda>p. p < 0) (ps::real list)) \<le> 0"
  by (induction ps) auto

lemma gross_profit_sum:
  "sum_list (filter (\<lambda>p. p > 0) (map (\<lambda>t. the (d_net_pnl t)) ts)) = gross_profit_of ts"
  unfolding gross_profit_of_def by (induction ts) auto

lemma gross_loss_sum:
  "\<bar>sum_list (filter (\<lambda>p. p < 0) (map (\<lambda>t. the (d_net_pnl t)) ts))\<bar> = gross_loss_of ts"
proof -
  have "- sum_list (filter (\<lambda>p. p < 0) (map (\<lambda>t. the (d_net_pnl t)) ts)) = gross_loss_of ts"
    unfolding gross_loss_of_def by (induction ts) auto
  moreover have "sum_list (filter (\<lambda>p. p < 0) (map (\<lambda>t. the (d_net_pnl t)) ts)) \<le> 0"
    by (rule sum_list_negatives_le_0)
  ultimately show ?thesis by simp
qed

lemma profit_factor_eval:
  assumes "\<forall>t \<in> set ts. d_net_pnl t \<noteq> None"
  shows "calculate_profit_factor ts =
     Inr (if gross_loss_of ts \<noteq> 0 then gross_profit_of ts / gross_loss_of ts
          else if gross_profit_of ts > 0 then gross_profit_of ts / 0.01
          else 0)"
proof -
  have "None \<notin> set (map d_net_pnl ts)" using assms by auto
  then show ?thesis
    unfolding calculate_profit_factor_def Let_def gross_profit_sum gross_loss_sum
    by simp
qed

section \<open>Steps of the engine\<close>

lemma execute_signal_result:
  "execute_signal cfg st p1 p2 sig d x h =
     (case map_of (open_positions st) (p1, p2) of
        None \<Rightarrow>
          (if sig = BUY then Inr (open_trade cfg st p1 p2 LONG d x h)
           else if sig = SELL then Inr (open_trade cfg st p1 p2 SHORT d x h)
           else Inr st)
      | Some t \<Rightarrow>
          (if sig = CLOSE then close_trade cfg st p1 p2 d x else Inr st))"
  by (cases sig) (auto simp: execute_signal_def Let_def split: option.splits)

lemma close_trade_result:
  "map_of (open_positions st) (p1, p2) = Some t \<Longrightarrow>
   close_trade cfg st p1 p2 d x =
     Inr (st\<lparr>current_capital := current_capital st
                + trade_net_pnl (close t d x (entry_quantity t)
                     (entry_price t * entry_quantity t * cfg_commission_pct cfg)),
             trades := trades st @ [close t d x (entry_quantity t)
                     (entry_price t * entry_quantity t * cfg_commission_pct cfg)],
             open_positions := AList.delete (p1, p2) (open_positions st)\<rparr>)"
  by (simp add: close_trade_def Let_def)

lemma process_pair_cases:
  assumes "process_pair lib cfg pd st p1 p2 d cp = Inr st'"
  shows "st' = st \<or> (\<exists>sig x h. execute_signal cfg st p1 p2 sig d x h = Inr st')"
  using assms unfolding process_pair_def Let_def
  by (auto split: option.splits sum.splits if_splits prod.splits)

lemma length_delete_distinct:
  "distinct (map fst al) \<Longrightarrow> map_of al k = Some v \<Longrightarrow> Suc (length (AList.delete k al)) = length al"
proof (induction al)
  case Nil
  then show ?case by simp
next
  case (Cons a al)
  show ?case
  proof (cases "fst a = k")
    case True
    with Cons.prems have "k \<notin> fst ` set al" by auto
    then have "AList.delete k al = al" by simp
    with True show ?thesis by simp
  next
    case False
    with Cons show ?thesis by auto
  qed
qed

lemma length_update:
  "length (AList.update k v al) = (if k \<in> fst ` set al then length al else Suc (length al))"
proof -
  have "length (AList.update k v al) = length (map fst (AList.update k v al))" by simp
  also have "\<dots> = (if k \<in> fst ` set al then length al else Suc (length al))"
    unfolding AList.update_keys by simp
  finally show ?thesis .
qed

lemma positions_inv_open:
  assumes "positions_inv st" and "map_of (open_positions st) (p1, p2) = None"
  shows "positions_inv (open_trade cfg st p1 p2 sd d x h)"
proof -
  have "(p1, p2) \<notin> fst ` set (open_positions st)"
    using assms(2) by (simp add: map_of_eq_None_iff)
  then show ?thesis
    using assms unfolding positions_inv_def open_trade_def Let_def
    by (auto simp: AList.distinct_update AList.update_conv' length_update new_Trade_def)
qed

lemma positions_inv_close:
  assumes "positions_inv st" and "close_trade cfg st p1 p2 d x = Inr st'"
  shows "positions_inv st'"
proof -
  obtain t where t: "map_of (open_positions st) (p1, p2) = Some t"
    using assms(2) by (auto simp: close_trade_def Let_def split: option.splits)
  have len: "Suc (length (AList.delete (p1, p2) (open_positions st))) = length (open_positions st)"
    using assms(1) t by (intro length_delete_distinct) (auto simp: positions_inv_def)
  show ?thesis
    using assms len unfolding close_trade_result [OF t] positions_inv_def
    by (auto simp: AList.distinct_delete AList.delete_conv' split: if_splits)
qed

lemma positions_inv_execute:
  assumes "positions_inv st" and "execute_signal cfg st p1 p2 sig d x h = Inr st'"
  shows "positions_inv st'"
  using assms positions_inv_open positions_inv_close
  unfolding execute_signal_result
  by (auto split: option.splits if_splits)

lemma capital_inv_execute:
  assumes "capital_inv st" and "execute_signal cfg st p1 p2 sig d x h = Inr st'"
  shows "capital_inv st'"
  using assms unfolding execute_signal_result
  by (auto split: option.splits if_splits
      simp: close_trade_result capital_inv_def open_trade_def Let_def close_def)

lemma init_inv:
  assumes "init cfg pd = Inr st"
  shows "positions_inv st" "capital_inv st" "starting_capital st = cfg_starting_capital cfg"
  using assms unfolding init_def positions_inv_def capital_inv_def
  by (auto split: sum.splits if_splits)

lemma starting_capital_execute:
  "execute_signal cfg st p1 p2 sig d x h = Inr st' \<Longrightarrow> starting_capital st' = starting_capital st"
  unfolding execute_signal_result
  by (auto split: option.splits if_splits simp: close_trade_result open_trade_def Let_def)

lemma reachable_inv:
  assumes "reachable lib cfg pd st"
  shows "positions_inv st \<and> capital_inv st \<and> starting_capital st = cfg_starting_capital cfg"
  using assms
proof (induction rule: reachable.induct)
  case (reach_init st)
  then show ?case using init_inv by blast
next
  case (reach_pair st pair1 pair2 date cp st')
  from process_pair_cases [OF reach_pair.hyps(2)] reach_pair.IH show ?case
    using positions_inv_execute capital_inv_execute starting_capital_execute by metis
next
  case (reach_sample st date)
  then show ?case by (simp add: positions_inv_def capital_inv_def)
qed

lemma filter_key_le_1:
  "distinct (map fst al) \<Longrightarrow> length (filter (\<lambda>kt. fst kt = k) al) \<le> 1"
proof (induction al)
  case Nil
  then show ?case by simp
next
  case (Cons a al)
  show ?case
  proof (cases "fst a = k")
    case True
    with Cons.prems have "k \<notin> fst ` set al" by simp
    then have "\<forall>kt \<in> set al. fst kt \<noteq> k" by (auto simp: image_iff)
    then have "filter (\<lambda>kt. fst kt = k) al = []" by (simp add: filter_empty_conv)
    with True show ?thesis by simp
  next
    case False
    with Cons show ?thesis by simp
  qed
qed

lemma positions_inv_open_count:
  assumes "positions_inv st"
  shows "open_count st k \<le> 1"
proof -
  have "\<forall>kt \<in> set (open_positions st). pair (snd kt) = fst kt"
    using assms unfolding positions_inv_def by (metis map_of_is_SomeI prod.collapse)
  then have "filter (\<lambda>kt. pair (snd kt) = k) (open_positions st)
           = filter (\<lambda>kt. fst kt = k) (open_positions st)"
    by (intro filter_cong) auto
  then show ?thesis
    using filter_key_le_1 [of "open_positions st" k] assms
    by (simp add: open_count_def positions_inv_def)
qed

section \<open>The loop over the dates\<close>

lemma process_pair_fields:
  assumes "process_pair lib cfg pd st p1 p2 d cp = Inr st'"
  shows "equity_curve st' = equity_curve st \<and> dates st' = dates st"
proof -
  have ex: "equity_curve s' = equity_curve st \<and> dates s' = dates st"
    if "execute_signal cfg st p1 p2 sig d x h = Inr s'" for sig x h s'
    using that unfolding execute_signal_result
    by (auto split: option.splits if_splits simp: close_trade_result open_trade_def Let_def)
  from process_pair_cases [OF assms] ex show ?thesis by blast
qed

lemma process_rest_fields:
  "process_rest lib cfg pd d cp p1 ps st = Inr st' \<Longrightarrow>
   equity_curve st' = equity_curve st \<and> dates st' = dates st"
proof (induction ps arbitrary: st)
  case Nil
  then show ?case by simp
next
  case (Cons p2 ps)
  then show ?case
    by (auto split: sum.splits dest!: process_pair_fields)
qed

lemma process_pairs_fields:
  "process_pairs lib cfg pd d cp ps st = Inr st' \<Longrightarrow>
   equity_curve st' = equity_curve st \<and> dates st' = dates st"
proof (induction ps arbitrary: st)
  case Nil
  then show ?case by simp
next
  case (Cons p1 ps)
  then show ?case
    by (auto split: sum.splits dest!: process_rest_fields)
qed

lemma collect_prices_keys:
  assumes "collect_prices pd d as acc = Inr cp" and "distinct (map fst acc)"
  shows "distinct (map fst cp)
     \<and> fst ` set cp = fst ` set acc \<union> {a \<in> set as. has_price pd d a}"
  using assms
proof (induction as arbitrary: acc)
  case Nil
  then show ?case by simp
next
  case (Cons a as)
  from Cons.prems(1) obtain price where
    price: "get_price_at_date pd a d = Inr price" and
    rest: "collect_prices pd d as
             (case price of None \<Rightarrow> acc
              | Some p \<Rightarrow> if p \<noteq> 0 then AList.update a p acc else acc) = Inr cp"
    by (auto split: sum.splits)
  let ?acc' = "(case price of None \<Rightarrow> acc
              | Some p \<Rightarrow> if p \<noteq> 0 then AList.update a p acc else acc)"
  have d': "distinct (map fst ?acc')"
    using Cons.prems(2) by (auto split: option.splits simp: AList.distinct_update)
  have keys: "fst ` set ?acc' = fst ` set acc \<union> (if has_price pd d a then {a} else {})"
    using price by (auto split: option.splits simp: has_price_def AList.dom_update)
  from Cons.IH [OF rest d'] keys show ?case by auto
qed

lemma collect_prices_guard:
  assumes "collect_prices pd d (cfg_pairs cfg) [] = Inr cp"
  shows "\<not> length cp < length (cfg_pairs cfg) \<longleftrightarrow> tradable pd cfg d"
proof -
  let ?ps = "cfg_pairs cfg"
  let ?S = "{a \<in> set ?ps. has_price pd d a}"
  from collect_prices_keys [OF assms] have dist: "distinct (map fst cp)"
    and keys: "fst ` set cp = ?S" by auto
  have "length cp = length (map fst cp)" by simp
  also have "\<dots> = card (set (map fst cp))" using distinct_card [OF dist] by simp
  also have "\<dots> = card ?S" using keys by simp
  finally have len: "length cp = card ?S" .
  have sub: "?S \<subseteq> set ?ps" by auto
  have le1: "card ?S \<le> card (set ?ps)" by (rule card_mono) (use sub in auto)
  have le2: "card (set ?ps) \<le> length ?ps" by (rule card_length)
  show ?thesis
  proof
    assume "\<not> length cp < length ?ps"
    with len le1 le2 have e1: "card (set ?ps) = length ?ps" and e2: "card ?S = card (set ?ps)"
      by auto
    from e1 have "distinct ?ps" by (rule card_distinct)
    moreover from e2 sub have "?S = set ?ps" by (intro card_subset_eq) auto
    ultimately show "tradable pd cfg d"
      by (auto simp: tradable_def list_all_iff)
  next
    assume "tradable pd cfg d"
    then have "distinct ?ps" and "?S = set ?ps" by (auto simp: tradable_def list_all_iff)
    then show "\<not> length cp < length ?ps" using len by (simp add: distinct_card)
  qed
qed

lemma collect_prices_returns:
  "\<forall>a \<in> set as. map_of pd a \<noteq> None \<Longrightarrow> \<exists>cp. collect_prices pd d as acc = Inr cp"
proof (induction as arbitrary: acc)
  case Nil
  then show ?case by simp
next
  case (Cons a as)
  from Cons.prems obtain df where "map_of pd a = Some df" by auto
  then have "\<exists>price. get_price_at_date pd a d = Inr price"
    by (cases "filter (\<lambda>r. timestamp r = d) df") (simp_all add: get_price_at_date_def)
  with Cons show ?case by auto
qed

lemma run_date_equity:
  assumes "run_date lib cfg pd st d = Inr st'"
  shows "equity_curve st' =
           equity_curve st @ (if tradable pd cfg d then [(d, current_capital st')] else [])"
    and "dates st' = dates st"
    and "\<not> tradable pd cfg d \<Longrightarrow> st' = st"
proof -
  from assms obtain cp where cp: "collect_prices pd d (cfg_pairs cfg) [] = Inr cp"
    by (auto simp: run_date_def split: sum.splits)
  note g = collect_prices_guard [OF cp]
  show "equity_curve st' =
           equity_curve st @ (if tradable pd cfg d then [(d, current_capital st')] else [])"
    using assms cp g
    by (auto simp: run_date_def split: sum.splits if_splits dest!: process_pairs_fields)
  show "dates st' = dates st"
    using assms cp g
    by (auto simp: run_date_def split: sum.splits if_splits dest!: process_pairs_fields)
  show "st' = st" if "\<not> tradable pd cfg d"
    using assms cp g that
    by (auto simp: run_date_def split: sum.splits if_splits)
qed

lemma run_dates_equity:
  assumes "run_dates lib cfg pd ds st = Inr st'"
  shows "map fst (equity_curve st') = map fst (equity_curve st) @ filter (tradable pd cfg) ds
     \<and> dates st' = dates st"
  using assms
proof (induction ds arbitrary: st)
  case Nil
  then show ?case by simp
next
  case (Cons d ds)
  from Cons.prems obtain s where s: "run_date lib cfg pd st d = Inr s"
    and r: "run_dates lib cfg pd ds s = Inr st'"
    by (auto split: sum.splits)
  from Cons.IH [OF r] run_date_equity(1,2) [OF s] show ?case by auto
qed

lemma run_dates_last_sample:
  assumes "run_dates lib cfg pd ds st = Inr st'"
    and "equity_curve st \<noteq> [] \<longrightarrow> snd (last (equity_curve st)) = current_capital st"
  shows "equity_curve st' \<noteq> [] \<longrightarrow> snd (last (equity_curve st')) = current_capital st'"
  using assms
proof (induction ds arbitrary: st)
  case Nil
  then show ?case by simp
next
  case (Cons d ds)
  from Cons.prems(1) obtain s where s: "run_date lib cfg pd st d = Inr s"
    and r: "run_dates lib cfg pd ds s = Inr st'"
    by (auto split: sum.splits)
  have "equity_curve s \<noteq> [] \<longrightarrow> snd (last (equity_curve s)) = current_capital s"
  proof (cases "tradable pd cfg d")
    case True
    with run_date_equity(1) [OF s] show ?thesis by simp
  next
    case False
    with run_date_equity(3) [OF s] Cons.prems(2) show ?thesis by simp
  qed
  from Cons.IH [OF r this] show ?case .
qed

lemma get_common_dates_result:
  assumes "get_common_dates pd = Inr ds"
  shows "pd \<noteq> [] \<and> sorted ds \<and> distinct ds
     \<and> set ds = (\<Inter>df \<in> snd ` set pd. timestamp ` set df)"
proof -
  from assms have ne: "pd \<noteq> []"
    and ds: "ds = sorted_list_of_set (\<Inter> (set (map (\<lambda>df. set (map timestamp df)) (map snd pd))))"
    by (auto simp: get_common_dates_def Let_def split: if_splits)
  let ?I = "\<Inter> (set (map (\<lambda>df. set (map timestamp df)) (map snd pd)))"
  from ne obtain a df where "(a, df) \<in> set pd" by (cases pd) auto
  then have "?I \<subseteq> set (map timestamp df)" by force
  then have fin: "finite ?I" by (rule finite_subset) simp
  have "?I = (\<Inter>df \<in> snd ` set pd. timestamp ` set df)" by auto
  with fin ds ne show ?thesis by simp
qed

lemma backtest_result:
  assumes "backtest lib cfg pd = Inr st"
  shows "get_common_dates pd = Inr (dates st) \<and> dates st \<noteq> []
     \<and> map fst (equity_curve st) = filter (tradable pd cfg) (dates st)
     \<and> (equity_curve st \<noteq> [] \<longrightarrow> snd (last (equity_curve st)) = current_capital st)"
proof -
  from assms obtain s0 where i: "init cfg pd = Inr s0" and r: "run_dates lib cfg pd (dates s0) s0 = Inr st"
    by (auto simp: backtest_def run_def split: sum.splits)
  from i have s0: "get_common_dates pd = Inr (dates s0)" "dates s0 \<noteq> []" "equity_curve s0 = []"
    by (auto simp: init_def split: sum.splits if_splits)
  from run_dates_equity [OF r] run_dates_last_sample [OF r] s0 show ?thesis by simp
qed

section \<open>Reachable states and returning\<close>

lemma process_rest_reachable:
  "reachable lib cfg pd st \<Longrightarrow> process_rest lib cfg pd d cp p1 ps st = Inr st' \<Longrightarrow>
   reachable lib cfg pd st'"
proof (induction ps arbitrary: st)
  case Nil
  then show ?case by simp
next
  case (Cons p2 ps)
  from Cons.prems(2) obtain s where s: "process_pair lib cfg pd st p1 p2 d cp = Inr s"
    and r: "process_rest lib cfg pd d cp p1 ps s = Inr st'"
    by (auto split: sum.splits)
  from Cons.prems(1) s have "reachable lib cfg pd s" by (rule reach_pair)
  then show ?case using r by (rule Cons.IH)
qed

lemma process_pairs_reachable:
  "reachable lib cfg pd st \<Longrightarrow> process_pairs lib cfg pd d cp ps st = Inr st' \<Longrightarrow>
   reachable lib cfg pd st'"
proof (induction ps arbitrary: st)
  case Nil
  then show ?case by simp
next
  case (Cons p1 ps)
  from Cons.prems(2) obtain s where s: "process_rest lib cfg pd d cp p1 ps st = Inr s"
    and r: "process_pairs lib cfg pd d cp ps s = Inr st'"
    by (auto split: sum.splits)
  from Cons.prems(1) s have "reachable lib cfg pd s" by (rule process_rest_reachable)
  then show ?case using r by (rule Cons.IH)
qed

lemma run_date_reachable:
  assumes "reachable lib cfg pd st" and "run_date lib cfg pd st d = Inr st'"
  shows "reachable lib cfg pd st'"
  using assms
  by (auto simp: run_date_def split: sum.splits if_splits
      intro: reach_sample dest: process_pairs_reachable)

lemma run_dates_reachable:
  "reachable lib cfg pd st \<Longrightarrow> run_dates lib cfg pd ds st = Inr st' \<Longrightarrow>
   reachable lib cfg pd st'"
proof (induction ds arbitrary: st)
  case Nil
  then show ?case by simp
next
  case (Cons d ds)
  from Cons.prems(2) obtain s where s: "run_date lib cfg pd st d = Inr s"
    and r: "run_dates lib cfg pd ds s = Inr st'"
    by (auto split: sum.splits)
  from Cons.prems(1) s have "reachable lib cfg pd s" by (rule run_date_reachable)
  then show ?case using r by (rule Cons.IH)
qed

lemma backtest_reachable:
  assumes "backtest lib cfg pd = Inr st"
  shows "reachable lib cfg pd st"
proof -
  from assms obtain s0 where i: "init cfg pd = Inr s0"
    and r: "run_dates lib cfg pd (dates s0) s0 = Inr st"
    by (auto simp: backtest_def run_def split: sum.splits)
  from i have "reachable lib cfg pd s0" by (rule reach_init)
  then show ?thesis using r by (rule run_dates_reachable)
qed

lemma execute_signal_returns: "\<exists>st'. execute_signal cfg st p1 p2 sig d x h = Inr st'"
  unfolding execute_signal_result
  by (auto split: option.splits simp: close_trade_result)

lemma test_cointegration_eval:
  assumes "calculate_hedge_ratio lib (if length p1 > lb then last_n lb p1 else p1)
             (if length p1 > lb then last_n lb p2 else p2) = Inr h"
    and "calculate_spread_arr (if length p1 > lb then last_n lb p1 else p1)
             (if length p1 > lb then last_n lb p2 else p2) h = Inr sp"
  shows "test_cointegration lib ct p1 p2 lb =
     (case adfuller lib sp None of
        Inl msg \<Rightarrow>
          Inr (\<lparr>cointegrated = False, adf_pvalue = None, coint_adf_statistic = None,
                hedge_ratio = h, spread_mean = None, spread_std = None,
                lookback_periods = None, coint_critical_values = None,
                coint_error = Some ''ADF test failed''\<rparr>,
               [LogError (''ADF test failed: '' @ msg)])
      | Inr r \<Rightarrow>
          Inr (\<lparr>cointegrated = (pvalue r < min_pvalue ct),
                adf_pvalue = Some (pvalue r),
                coint_adf_statistic = Some (adf_statistic r),
                hedge_ratio = h,
                spread_mean = Some (np_mean lib sp),
                spread_std = Some (np_std lib sp),
                lookback_periods = Some (length (if length p1 > lb then last_n lb p1 else p1)),
                coint_critical_values = Some (critical_values r),
                coint_error = None\<rparr>, []))"
  using assms by (simp add: test_cointegration_def Let_def adf_test_def split: sum.splits)

lemma test_cointegration_returns:
  assumes "\<forall>x y. \<exists>b. lstsq lib x y = Inr b"
    and "length p1 = length p2"
  shows "\<exists>r lg. test_cointegration lib ct p1 p2 lb = Inr (r, lg)
     \<and> (cointegrated r \<longrightarrow> spread_mean r \<noteq> None \<and> spread_std r \<noteq> None)"
proof -
  let ?w1 = "if length p1 > lb then last_n lb p1 else p1"
  let ?w2 = "if length p1 > lb then last_n lb p2 else p2"
  have len: "length ?w1 = length ?w2" using assms(2) by (simp add: last_n_def)
  from assms(1) obtain b where b: "lstsq lib ?w2 ?w1 = Inr b" by blast
  have h: "calculate_hedge_ratio lib ?w1 ?w2 = Inr (snd b)"
    using b by (simp add: calculate_hedge_ratio_def)
  obtain sp where sp: "calculate_spread_arr ?w1 ?w2 (snd b) = Inr sp"
    using len by (simp add: calculate_spread_arr_def)
  show ?thesis
    unfolding test_cointegration_eval [OF h sp]
    by (cases "adfuller lib sp None") auto
qed

lemma filter_length_timestamps:
  "length (map close_price (filter (\<lambda>r. timestamp r \<le> d) df))
     = length (filter (\<lambda>t. t \<le> d) (map timestamp df))"
  by (induction df) auto

lemma process_pair_returns:
  assumes al: "aligned pd cfg" and p: "p1 \<in> set (cfg_pairs cfg)" "p2 \<in> set (cfg_pairs cfg)"
    and cp: "map_of cp p1 \<noteq> None" "map_of cp p2 \<noteq> None"
    and thr: "cfg_entry_threshold cfg \<noteq> 0"
    and lib: "\<forall>x y. \<exists>b. lstsq lib x y = Inr b"
  shows "\<exists>st'. process_pair lib cfg pd st p1 p2 d cp = Inr st'"
proof -
  from al p obtain df1 df2 where df: "map_of pd p1 = Some df1" "map_of pd p2 = Some df2"
    and ts: "map timestamp df1 = map timestamp df2"
    unfolding aligned_def by blast
  let ?prices1 = "map close_price (filter (\<lambda>r. timestamp r \<le> d) df1)"
  let ?prices2 = "map close_price (filter (\<lambda>r. timestamp r \<le> d) df2)"
  have "length ?prices1 = length ?prices2"
    unfolding filter_length_timestamps ts ..
  from test_cointegration_returns [OF lib this, of "coint_tester cfg" 252]
  obtain r lg where r: "test_cointegration lib (coint_tester cfg) ?prices1 ?prices2 252 = Inr (r, lg)"
    and ms: "cointegrated r \<longrightarrow> spread_mean r \<noteq> None \<and> spread_std r \<noteq> None"
    by blast
  from cp obtain c1 c2 where c: "map_of cp p1 = Some c1" "map_of cp p2 = Some c2" by auto
  show ?thesis
  proof (cases "cointegrated r")
    case False
    then show ?thesis using df r c by (simp add: process_pair_def Let_def)
  next
    case True
    with ms obtain m s where m: "spread_mean r = Some m" "spread_std r = Some s" by auto
    from execute_signal_returns obtain st' where
      "execute_signal cfg st p1 p2
         (signal (generate_signal (signal_gen cfg)
            (fst (calculate_zscore (calculate_spread c1 c2 (hedge_ratio r)) m s))
            (map_of (open_positions st) (p1, p2) \<noteq> None)))
         d (calculate_spread c1 c2 (hedge_ratio r)) (hedge_ratio r) = Inr st'" by blast
    then show ?thesis
      using df r c m True by (simp add: process_pair_def Let_def)
  qed
qed

lemma process_rest_returns:
  assumes "\<And>p2 st. p2 \<in> set ps \<Longrightarrow> \<exists>st'. process_pair lib cfg pd st p1 p2 d cp = Inr st'"
  shows "\<exists>st'. process_rest lib cfg pd d cp p1 ps st = Inr st'"
  using assms
proof (induction ps arbitrary: st)
  case Nil
  then show ?case by simp
next
  case (Cons p2 ps)
  from Cons.prems [of p2 st] obtain s where s: "process_pair lib cfg pd st p1 p2 d cp = Inr s"
    by auto
  from Cons.IH [of s] Cons.prems obtain st' where "process_rest lib cfg pd d cp p1 ps s = Inr st'"
    by auto
  with s show ?case by simp
qed

lemma process_pairs_returns:
  assumes "\<And>p1 p2 st. p1 \<in> set ps \<Longrightarrow> p2 \<in> set ps \<Longrightarrow>
             \<exists>st'. process_pair lib cfg pd st p1 p2 d cp = Inr st'"
  shows "\<exists>st'. process_pairs lib cfg pd d cp ps st = Inr st'"
  using assms
proof (induction ps arbitrary: st)
  case Nil
  then show ?case by simp
next
  case (Cons p1 ps)
  have "\<exists>s. process_rest lib cfg pd d cp p1 ps st = Inr s"
    by (rule process_rest_returns) (use Cons.prems in auto)
  then obtain s where s: "process_rest lib cfg pd d cp p1 ps st = Inr s" ..
  from Cons.IH [of s] Cons.prems obtain st' where "process_pairs lib cfg pd d cp ps s = Inr st'"
    by auto
  with s show ?case by simp
qed

lemma run_date_returns:
  assumes al: "aligned pd cfg" and thr: "cfg_entry_threshold cfg \<noteq> 0"
    and lib: "\<forall>x y. \<exists>b. lstsq lib x y = Inr b"
  shows "\<exists>st'. run_date lib cfg pd st d = Inr st'"
proof -
  from al have "\<forall>a \<in> set (cfg_pairs cfg). map_of pd a \<noteq> None"
    unfolding aligned_def by fastforce
  from collect_prices_returns [OF this] obtain cp where
    cp: "collect_prices pd d (cfg_pairs cfg) [] = Inr cp" by blast
  show ?thesis
  proof (cases "length cp < length (cfg_pairs cfg)")
    case True
    then show ?thesis by (simp add: run_date_def cp)
  next
    case False
    with collect_prices_guard [OF cp] have "tradable pd cfg d" by simp
    then have "set (cfg_pairs cfg) \<subseteq> fst ` set cp"
      using collect_prices_keys [OF cp] by (auto simp: tradable_def list_all_iff)
    then have keys: "\<forall>a \<in> set (cfg_pairs cfg). map_of cp a \<noteq> None"
      by (auto simp: map_of_eq_None_iff)
    have "\<exists>s. process_pairs lib cfg pd d cp (cfg_pairs cfg) st = Inr s"
      by (rule process_pairs_returns) (use keys in \<open>auto intro!: process_pair_returns al thr lib\<close>)
    then show ?thesis using False by (auto simp: run_date_def cp)
  qed
qed

lemma run_dates_returns:
  assumes "aligned pd cfg" and "cfg_entry_threshold cfg \<noteq> 0"
    and "\<forall>x y. \<exists>b. lstsq lib x y = Inr b"
  shows "\<exists>st'. run_dates lib cfg pd ds st = Inr st'"
proof (induction ds arbitrary: st)
  case Nil
  then show ?case by simp
next
  case (Cons d ds)
  from run_date_returns [OF assms] obtain s where "run_date lib cfg pd st d = Inr s" by blast
  with Cons [of s] show ?case by simp
qed

lemma backtest_returns:
  assumes "init cfg pd = Inr s0" and "aligned pd cfg" and "cfg_entry_threshold cfg \<noteq> 0"
    and "\<forall>x y. \<exists>b. lstsq lib x y = Inr b"
  shows "\<exists>st. backtest lib cfg pd = Inr st"
  using run_dates_returns [OF assms(2-4)] assms(1) by (simp add: backtest_def run_def)

section \<open>Two example runs\<close>

lemma ex_zero_dates: "get_common_dates ex_zero_data = Inr [0, 1]"
  by (simp add: get_common_dates_def ex_zero_data_def)

lemma ex_zero_init:
  "init ex_config ex_zero_data =
     Inr \<lparr>starting_capital = 100000, current_capital = 100000,
          equity_curve = [], trades = [], open_positions = [],
          next_trade_id = 0, dates = [0, 1]\<rparr>"
  by (simp add: init_def ex_zero_dates) (simp add: ex_config_def)

lemma ex_zero_run:
  "backtest ex_lib ex_config ex_zero_data =
     Inr \<lparr>starting_capital = 100000, current_capital = 100000,
          equity_curve = [(0, 100000)], trades = [], open_positions = [],
          next_trade_id = 0, dates = [0, 1]\<rparr>"
  unfolding backtest_def ex_zero_init
  by (simp add: run_def run_date_def ex_config_def
      get_price_at_date_def ex_zero_data_def process_pair_def)

lemma ex_frame_timestamps: "map timestamp (ex_frame f n) = [0..<n]"
  by (simp add: ex_frame_def comp_def)

lemma filter_eq_upt: "d < n \<Longrightarrow> filter (\<lambda>i. i = d) [0..<n] = [d]"
  by (induction n) (auto simp: less_Suc_eq)

lemma filter_le_upt: "filter (\<lambda>i. i \<le> d) [0..<n] = [0..<min (Suc d) n]"
  by (induction n) (auto simp: min_def)

lemma ex_frame_at:
  "d < n \<Longrightarrow> filter (\<lambda>r. timestamp r = d) (ex_frame f n) = [\<lparr>timestamp = d, close_price = f d\<rparr>]"
  by (simp add: ex_frame_def filter_map comp_def filter_eq_upt)

lemma ex_frame_upto:
  "length (filter (\<lambda>r. timestamp r \<le> d) (ex_frame f n)) = min (Suc d) n"
  by (simp add: ex_frame_def filter_map comp_def filter_le_upt)

lemma ex_dates: "get_common_dates ex_data = Inr [0..<253]"
proof -
  have "set (map timestamp (ex_frame f n)) = {0..<n}" for f n
    unfolding ex_frame_timestamps by simp
  then show ?thesis
    unfolding get_common_dates_def ex_data_def Let_def by simp
qed

lemma ex_price:
  "d < 253 \<Longrightarrow> get_price_at_date ex_data ''A'' d = Inr (Some (if d = 251 then 11 else 7))"
  "d < 253 \<Longrightarrow> get_price_at_date ex_data ''B'' d = Inr (Some 7)"
  by (simp_all add: get_price_at_date_def ex_data_def ex_frame_at)

lemma ex_collect:
  "d < 253 \<Longrightarrow> collect_prices ex_data d (cfg_pairs ex_config) []
     = Inr [(''A'', if d = 251 then 11 else 7), (''B'', 7)]"
  by (simp add: ex_config_def ex_price)

lemma ex_process_pair_early:
  "d < 251 \<Longrightarrow> process_pair ex_lib ex_config ex_data st ''A'' ''B'' d cp = Inr st"
  by (simp add: process_pair_def ex_data_def ex_frame_upto)

lemma ex_run_date_early:
  assumes "d < 251"
  shows "run_date ex_lib ex_config ex_data st d
           = Inr (st\<lparr>equity_curve := equity_curve st @ [(d, current_capital st)]\<rparr>)"
proof -
  from assms have d: "d < 253" by simp
  have "process_pairs ex_lib ex_config ex_data d cp (cfg_pairs ex_config) st = Inr st" for cp
    using ex_process_pair_early [OF assms] by (simp add: ex_config_def)
  then show ?thesis
    unfolding run_date_def ex_collect [OF d] by (simp add: ex_config_def)
qed

lemma run_dates_append:
  "run_dates lib cfg pd (xs @ ys) st =
     (case run_dates lib cfg pd xs st of Inl e \<Rightarrow> Inl e | Inr s \<Rightarrow> run_dates lib cfg pd ys s)"
  by (induction xs arbitrary: st) (auto split: sum.splits)

lemma ex_run_dates_early:
  "n \<le> 251 \<Longrightarrow> run_dates ex_lib ex_config ex_data [0..<n] st
     = Inr (st\<lparr>equity_curve := equity_curve st @ map (\<lambda>d. (d, current_capital st)) [0..<n]\<rparr>)"
proof (induction n)
  case 0
  then show ?case by simp
next
  case (Suc n)
  then have n: "n < 251" and IH: "run_dates ex_lib ex_config ex_data [0..<n] st
     = Inr (st\<lparr>equity_curve := equity_curve st @ map (\<lambda>d. (d, current_capital st)) [0..<n]\<rparr>)"
    by simp_all
  show ?case
    by (simp add: run_dates_append IH ex_run_date_early [OF n])
qed

lemma ex_test_cointegration:
  assumes "length p1 = length p2"
  shows "test_cointegration ex_lib (coint_tester ex_config) p1 p2 252 =
     Inr (\<lparr>cointegrated = True, adf_pvalue = Some 0.01, coint_adf_statistic = Some (-4),
           hedge_ratio = 1, spread_mean = Some 0, spread_std = Some 1,
           lookback_periods = Some (min 252 (length p1)),
           coint_critical_values = Some [], coint_error = None\<rparr>, [])"
proof -
  let ?w1 = "if length p1 > 252 then last_n 252 p1 else p1"
  let ?w2 = "if length p1 > 252 then last_n 252 p2 else p2"
  have len: "length ?w1 = length ?w2" using assms by (simp add: last_n_def)
  have h: "calculate_hedge_ratio ex_lib ?w1 ?w2 = Inr 1"
    by (simp add: calculate_hedge_ratio_def ex_lib_def)
  obtain sp where sp: "calculate_spread_arr ?w1 ?w2 1 = Inr sp"
    using len by (simp add: calculate_spread_arr_def)
  show ?thesis
    unfolding test_cointegration_eval [OF h sp]
    by (simp add: ex_lib_def ex_adf_def coint_tester_def ex_config_def last_n_def min_def)
qed

lemma ex_process_pair_late:
  assumes "251 \<le> d"
  shows "process_pair ex_lib ex_config ex_data st ''A'' ''B'' d [(''A'', a), (''B'', b)] =
     execute_signal ex_config st ''A'' ''B''
       (signal (generate_signal (signal_gen ex_config) (a - b)
                  (map_of (open_positions st) (''A'', ''B'') \<noteq> None)))
       d (a - b) 1"
proof -
  let ?p1 = "map close_price (filter (\<lambda>r. timestamp r \<le> d)
               (ex_frame (\<lambda>i. if i = 251 then 11 else 7) 253))"
  let ?p2 = "map close_price (filter (\<lambda>r. timestamp r \<le> d) (ex_frame (\<lambda>i. 7) 253))"
  have len: "length ?p1 = length ?p2" by (simp add: ex_frame_upto)
  have big: "\<not> (length ?p1 < 252 \<or> length ?p2 < 252)"
    using assms by (simp add: ex_frame_upto)
  show ?thesis
    unfolding process_pair_def Let_def
    using big
    by (simp add: ex_data_def ex_test_cointegration [OF len] calculate_spread_def
        calculate_zscore_def del: length_map)
qed

lemma ex_init:
  "init ex_config ex_data =
     Inr \<lparr>starting_capital = 100000, current_capital = 100000,
          equity_curve = [], trades = [], open_positions = [],
          next_trade_id = 0, dates = [0..<253]\<rparr>"
  by (simp add: init_def ex_dates) (simp add: ex_config_def)

lemma ex_day_251:
  "run_date ex_lib ex_config ex_data
     \<lparr>starting_capital = 100000, current_capital = 100000,
      equity_curve = ec, trades = [], open_positions = [],
      next_trade_id = 0, dates = ds\<rparr> 251
   = Inr \<lparr>starting_capital = 100000, current_capital = 100000,
      equity_curve = ec @ [(251, 100000)], trades = [],
      open_positions = [((''A'', ''B''), ex_open)],
      next_trade_id = Suc 0, dates = ds\<rparr>"
proof -
  have c: "collect_prices ex_data 251 (cfg_pairs ex_config) [] = Inr [(''A'', 11), (''B'', 7)]"
    using ex_collect [of 251] by simp
  have p: "process_pair ex_lib ex_config ex_data
     \<lparr>starting_capital = 100000, current_capital = 100000,
      equity_curve = ec, trades = [], open_positions = [],
      next_trade_id = 0, dates = ds\<rparr> ''A'' ''B'' 251 [(''A'', 11), (''B'', 7)]
    = Inr \<lparr>starting_capital = 100000, current_capital = 100000,
      equity_curve = ec, trades = [],
      open_positions = [((''A'', ''B''), ex_open)],
      next_trade_id = Suc 0, dates = ds\<rparr>"
    unfolding ex_process_pair_late [of 251, simplified]
    by (simp add: generate_signal_def signal_gen_def ex_config_def execute_signal_def
        open_trade_def calculate_position_size_def ex_open_def Let_def)
  show ?thesis
    unfolding run_date_def c using p by (simp add: ex_config_def)
qed

lemma ex_day_252:
  "run_date ex_lib ex_config ex_data
     \<lparr>starting_capital = 100000, current_capital = 100000,
      equity_curve = ec, trades = [],
      open_positions = [((''A'', ''B''), ex_open)],
      next_trade_id = Suc 0, dates = ds\<rparr> 252
   = Inr \<lparr>starting_capital = 100000, current_capital = 101992,
      equity_curve = ec @ [(252, 101992)], trades = [ex_closed],
      open_positions = [], next_trade_id = Suc 0, dates = ds\<rparr>"
proof -
  have c: "collect_prices ex_data 252 (cfg_pairs ex_config) [] = Inr [(''A'', 7), (''B'', 7)]"
    using ex_collect [of 252] by simp
  have p: "process_pair ex_lib ex_config ex_data
     \<lparr>starting_capital = 100000, current_capital = 100000,
      equity_curve = ec, trades = [],
      open_positions = [((''A'', ''B''), ex_open)],
      next_trade_id = Suc 0, dates = ds\<rparr> ''A'' ''B'' 252 [(''A'', 7), (''B'', 7)]
    = Inr \<lparr>starting_capital = 100000, current_capital = 101992,
      equity_curve = ec, trades = [ex_closed],
      open_positions = [], next_trade_id = Suc 0, dates = ds\<rparr>"
    unfolding ex_process_pair_late [of 252, simplified]
    by (simp add: generate_signal_def signal_gen_def ex_config_def execute_signal_def
        close_trade_def close_def trade_net_pnl_def ex_open_def ex_closed_def new_Trade_def
        Let_def)
  show ?thesis
    unfolding run_date_def c using p by (simp add: ex_config_def)
qed

lemma ex_run: "backtest ex_lib ex_config ex_data = Inr ex_final"
proof -
  have split: "[0..<253] = [0..<251] @ [251, 252]"
    by (simp add: upt_rec [of 251] upt_rec [of 252] upt_add_eq_append [of 0 251 2, simplified])
  have "[0..<Suc 251] = [0..<251] @ [251]" by (rule upt_Suc_append) simp
  then have split': "[0..<252] = [0..<251] @ [251]" by simp
  show ?thesis
    unfolding backtest_def ex_init
    apply (simp add: run_def)
    apply (subst split)
    apply (simp add: run_dates_append ex_run_dates_early ex_day_251 ex_day_252 ex_final_def)
    apply (simp add: split')
    done
qed

section \<open>Open positions\<close>

lemma ex_mid_run:
  "run_dates ex_lib ex_config ex_data [0..<252]
     \<lparr>starting_capital = 100000, current_capital = 100000,
      equity_curve = [], trades = [], open_positions = [],
      next_trade_id = 0, dates = [0..<253]\<rparr> = Inr ex_mid"
proof -
  have "[0..<Suc 251] = [0..<251] @ [251]" by (rule upt_Suc_append) simp
  then have split: "[0..<252] = [0..<251] @ [251]" by simp
  show ?thesis
    by (simp add: split run_dates_append ex_run_dates_early ex_day_251 ex_mid_def)
qed

lemma ex_mid_reachable: "reachable ex_lib ex_config ex_data ex_mid"
  using run_dates_reachable [OF reach_init [OF ex_init] ex_mid_run] .

lemma close_fields:
  "gross_pnl (close t xt xp xq fees) =
     Some ((if side t = LONG then 1 else -1) * entry_quantity t *
           (if entry_price t = 0 then 0 else (xp - entry_price t) / \<bar>entry_price t\<bar>))"
  "net_pnl (close t xt xp xq fees) =
     Some ((if side t = LONG then 1 else -1) * entry_quantity t *
           (if entry_price t = 0 then 0 else (xp - entry_price t) / \<bar>entry_price t\<bar>) - fees)"
  "side (close t xt xp xq fees) = side t"
  "entry_price (close t xt xp xq fees) = entry_price t"
  "entry_quantity (close t xt xp xq fees) = entry_quantity t"
  "exit_price (close t xt xp xq fees) = Some xp"
  "pair (close t xt xp xq fees) = pair t"
  "trade_id (close t xt xp xq fees) = trade_id t"
  by (simp_all add: close_def Let_def)

lemma execute_signal_other_keys:
  assumes "execute_signal cfg st p1 p2 sig d x h = Inr st'" and "k \<noteq> (p1, p2)"
  shows "map_of (open_positions st') k = map_of (open_positions st) k"
  using assms unfolding execute_signal_result
  by (auto split: option.splits if_splits
      simp: close_trade_result open_trade_def Let_def AList.update_conv' AList.delete_conv')

lemma execute_signal_transition:
  assumes "positions_inv st"
  shows "\<exists>st'. execute_signal cfg st p1 p2 sig d x h = Inr st'
     \<and> (case map_of (open_positions st) (p1, p2) of
          None \<Rightarrow>
            (if sig = BUY \<or> sig = SELL
             then (\<exists>t. map_of (open_positions st') (p1, p2) = Some t \<and> pair t = (p1, p2)
                     \<and> side t = (if sig = BUY then LONG else SHORT)
                     \<and> length (open_positions st') = Suc (length (open_positions st))
                     \<and> trades st' = trades st)
             else st' = st)
        | Some t \<Rightarrow>
            (if sig = CLOSE
             then map_of (open_positions st') (p1, p2) = None
                \<and> Suc (length (open_positions st')) = length (open_positions st)
                \<and> (\<exists>t'. trades st' = trades st @ [t'] \<and> trade_id t' = trade_id t)
             else st' = st))"
proof (cases "map_of (open_positions st) (p1, p2)")
  case None
  then have "(p1, p2) \<notin> fst ` set (open_positions st)" by (simp add: map_of_eq_None_iff)
  with None show ?thesis
    unfolding execute_signal_result
    by (auto simp: open_trade_def Let_def AList.update_conv' length_update new_Trade_def)
next
  case (Some t)
  have "Suc (length (AList.delete (p1, p2) (open_positions st))) = length (open_positions st)"
    using assms Some by (intro length_delete_distinct) (auto simp: positions_inv_def)
  with Some show ?thesis
    unfolding execute_signal_result
    by (auto simp: close_trade_result AList.delete_conv' close_fields)
qed

text \<open>
  C1. In every reachable state of the engine each pair key has at most one open
  position, and every trade identifier handed out belongs to a trade that is still open
  or to a closed one, so no open position was ever overwritten. The last statement of
  \<^verbatim>\<open>_process_pair\<close> always returns; it leaves the entries of all other pairs as they
  are; with no position for the pair, BUY and SELL add one position (LONG and SHORT) and
  every other signal leaves the state unchanged; with a position for the pair, CLOSE
  removes it and appends its trade to the log, and every other signal leaves the state
  unchanged.
\<close>

theorem at_most_one_open_position:
  assumes "reachable lib cfg pd st"
  shows "open_count st k \<le> 1
     \<and> positions_inv st
     \<and> (\<exists>st'. execute_signal cfg st p1 p2 sig d x h = Inr st'
          \<and> (\<forall>k'. k' \<noteq> (p1, p2) \<longrightarrow>
                 map_of (open_positions st') k' = map_of (open_positions st) k')
          \<and> (case map_of (open_positions st) (p1, p2) of
               None \<Rightarrow>
                 (if sig = BUY \<or> sig = SELL
                  then (\<exists>t. map_of (open_positions st') (p1, p2) = Some t \<and> pair t = (p1, p2)
                          \<and> side t = (if sig = BUY then LONG else SHORT)
                          \<and> length (open_positions st') = Suc (length (open_positions st))
                          \<and> trades st' = trades st)
                  else st' = st)
             | Some t \<Rightarrow>
                 (if sig = CLOSE
                  then map_of (open_positions st') (p1, p2) = None
                     \<and> Suc (length (open_positions st')) = length (open_positions st)
                     \<and> (\<exists>t'. trades st' = trades st @ [t'] \<and> trade_id t' = trade_id t)
                  else st' = st)))
     \<and> (\<forall>st'. process_pair lib cfg pd st p1 p2 d cp = Inr st' \<longrightarrow>
           (\<forall>k'. k' \<noteq> (p1, p2) \<longrightarrow>
                 map_of (open_positions st') k' = map_of (open_positions st) k'))
     \<and> (\<forall>s. backtest lib cfg pd = Inr s \<longrightarrow> open_count s k \<le> 1 \<and> positions_inv s)"
proof -
  have fin: "\<forall>s. backtest lib cfg pd = Inr s \<longrightarrow> open_count s k \<le> 1 \<and> positions_inv s"
    using backtest_reachable reachable_inv positions_inv_open_count by blast
  from reachable_inv [OF assms] have inv: "positions_inv st" by simp
  from execute_signal_transition [OF inv, of cfg p1 p2 sig d x h]
  obtain st' where st': "execute_signal cfg st p1 p2 sig d x h = Inr st'"
    and tr: "(case map_of (open_positions st) (p1, p2) of
               None \<Rightarrow>
                 (if sig = BUY \<or> sig = SELL
                  then (\<exists>t. map_of (open_positions st') (p1, p2) = Some t \<and> pair t = (p1, p2)
                          \<and> side t = (if sig = BUY then LONG else SHORT)
                          \<and> length (open_positions st') = Suc (length (open_positions st))
                          \<and> trades st' = trades st)
                  else st' = st)
             | Some t \<Rightarrow>
                 (if sig = CLOSE
                  then map_of (open_positions st') (p1, p2) = None
                     \<and> Suc (length (open_positions st')) = length (open_positions st)
                     \<and> (\<exists>t'. trades st' = trades st @ [t'] \<and> trade_id t' = trade_id t)
                  else st' = st))"
    by blast
  have other: "\<forall>k'. k' \<noteq> (p1, p2) \<longrightarrow>
                 map_of (open_positions st') k' = map_of (open_positions st) k'"
    using execute_signal_other_keys [OF st'] by blast
  have pp: "\<forall>s. process_pair lib cfg pd st p1 p2 d cp = Inr s \<longrightarrow>
           (\<forall>k'. k' \<noteq> (p1, p2) \<longrightarrow>
                 map_of (open_positions s) k' = map_of (open_positions st) k')"
    using process_pair_cases execute_signal_other_keys by metis
  from positions_inv_open_count [OF inv] inv st' tr other pp fin show ?thesis by blast
qed

text \<open>
  The state of the example run after day 251 holds one open SHORT position on (A, B): a
  BUY or a SELL for that pair changes nothing, a CLOSE closes it.
\<close>

theorem at_most_one_open_position_witness:
  "reachable ex_lib ex_config ex_data ex_mid
   \<and> open_count ex_mid (''A'', ''B'') = 1
   \<and> execute_signal ex_config ex_mid ''A'' ''B'' BUY 252 0 1 = Inr ex_mid
   \<and> execute_signal ex_config ex_mid ''A'' ''B'' SELL 252 0 1 = Inr ex_mid
   \<and> execute_signal ex_config ex_mid ''A'' ''B'' CLOSE 252 0 1
       = Inr (ex_final\<lparr>equity_curve := equity_curve ex_mid\<rparr>)
   \<and> open_count ex_mid (''A'', ''B'') \<le> 1 \<and> positions_inv ex_mid"
  using at_most_one_open_position [OF ex_mid_reachable,
      where k = "(''A'', ''B'')" and ?p1.0 = "''A''" and ?p2.0 = "''B''" and sig = BUY
        and d = 252 and x = 0 and h = 1]
    ex_mid_reachable
  by (simp add: ex_mid_def open_count_def ex_open_def new_Trade_def execute_signal_def
      close_trade_def ex_final_def ex_closed_def close_def Let_def trade_net_pnl_def
      ex_config_def)

section \<open>Capital and the equity curve\<close>

lemma execute_signal_capital:
  assumes "execute_signal cfg st p1 p2 sig d x h = Inr st'"
  shows "(trades st' = trades st \<and> current_capital st' = current_capital st)
     \<or> (\<exists>t. trades st' = trades st @ [t]
           \<and> current_capital st' = current_capital st + trade_net_pnl t)"
  using assms unfolding execute_signal_result
  by (auto split: option.splits if_splits simp: close_trade_result open_trade_def Let_def)

text \<open>
  C2. In every reachable state the current capital is the starting capital plus the sum
  of the net results of the trades closed so far, and every trade in the log has a net
  result. A call of \<^verbatim>\<open>_process_pair\<close> either leaves the log and the capital as they
  are, or appends one trade and adds that trade's net result to the capital.
\<close>

theorem capital_is_start_plus_closed_pnl:
  assumes "reachable lib cfg pd st"
  shows "current_capital st = cfg_starting_capital cfg + (\<Sum>t\<leftarrow>trades st. trade_net_pnl t)
     \<and> (\<forall>t \<in> set (trades st). net_pnl t \<noteq> None)
     \<and> (\<forall>st'. process_pair lib cfg pd st p1 p2 d cp = Inr st' \<longrightarrow>
           (trades st' = trades st \<and> current_capital st' = current_capital st)
           \<or> (\<exists>t. trades st' = trades st @ [t]
                 \<and> current_capital st' = current_capital st + trade_net_pnl t))
     \<and> (\<forall>s. backtest lib cfg pd = Inr s \<longrightarrow>
           current_capital s = cfg_starting_capital cfg + (\<Sum>t\<leftarrow>trades s. trade_net_pnl t))"
proof -
  have "\<forall>s. backtest lib cfg pd = Inr s \<longrightarrow>
           current_capital s = cfg_starting_capital cfg + (\<Sum>t\<leftarrow>trades s. trade_net_pnl t)"
    using backtest_reachable reachable_inv unfolding capital_inv_def by metis
  moreover
  from reachable_inv [OF assms] have "capital_inv st"
    and "starting_capital st = cfg_starting_capital cfg" by simp_all
  moreover have "\<forall>st'. process_pair lib cfg pd st p1 p2 d cp = Inr st' \<longrightarrow>
           (trades st' = trades st \<and> current_capital st' = current_capital st)
           \<or> (\<exists>t. trades st' = trades st @ [t]
                 \<and> current_capital st' = current_capital st + trade_net_pnl t)"
    using process_pair_cases execute_signal_capital by metis
  ultimately show ?thesis by (simp add: capital_inv_def)
qed

lemma ex_final_reachable: "reachable ex_lib ex_config ex_data ex_final"
  using backtest_reachable [OF ex_run] .

text \<open>
  The example run ends with one closed trade of net result 1992 and a capital of 101992.
\<close>

theorem capital_is_start_plus_closed_pnl_witness:
  "reachable ex_lib ex_config ex_data ex_final
   \<and> trades ex_final = [ex_closed] \<and> net_pnl ex_closed = Some 1992
   \<and> current_capital ex_final = cfg_starting_capital ex_config + 1992
   \<and> current_capital ex_final
       = cfg_starting_capital ex_config + (\<Sum>t\<leftarrow>trades ex_final. trade_net_pnl t)"
  using capital_is_start_plus_closed_pnl [OF ex_final_reachable] ex_final_reachable
  by (simp add: ex_final_def ex_closed_def ex_config_def trade_net_pnl_def)

text \<open>
  C3 as stated fails: with the closes of asset A being 1 and 0 on the common dates 0 and
  1, the run has two simulated dates and one sample in the equity curve.
\<close>

theorem equity_curve_length_counterexample:
  "backtest ex_lib ex_config ex_zero_data = Inr ex_zero_final
   \<and> get_common_dates ex_zero_data = Inr [0, 1]
   \<and> dates ex_zero_final = [0, 1]
   \<and> equity_curve ex_zero_final = [(0, 100000)]
   \<and> length (equity_curve ex_zero_final) \<noteq> length (dates ex_zero_final)"
  by (simp add: ex_zero_run ex_zero_dates ex_zero_final_def)

text \<open>
  C3, amended. When \<^verbatim>\<open>Backtester(config, price_data).run()\<close> returns, the simulated
  dates are the ascending list of the dates common to all price series, and the equity
  curve holds, in that order, one sample for each simulated date on which the configured
  assets are pairwise different and each has a close that is not zero, and no sample for
  any other date; so its length is at most the number of simulated dates, with equality
  exactly when no date is skipped. The sample appended for a date carries the capital
  after the pairs of that date; the last sample carries the final capital. The run
  returns when the constructor does, the configured assets have frames with the same
  timestamps, the entry threshold is not zero and the least-squares fit does not raise.
\<close>

theorem equity_curve_samples:
  "(backtest lib cfg pd = Inr st \<longrightarrow>
      get_common_dates pd = Inr (dates st)
      \<and> sorted (dates st) \<and> distinct (dates st)
      \<and> set (dates st) = (\<Inter>df \<in> snd ` set pd. timestamp ` set df)
      \<and> map fst (equity_curve st) = filter (tradable pd cfg) (dates st)
      \<and> length (equity_curve st) \<le> length (dates st)
      \<and> (length (equity_curve st) = length (dates st)
           \<longleftrightarrow> (\<forall>d \<in> set (dates st). tradable pd cfg d))
      \<and> (equity_curve st \<noteq> [] \<longrightarrow> snd (last (equity_curve st)) = current_capital st))
   \<and> (\<forall>s d s'. run_date lib cfg pd s d = Inr s' \<longrightarrow>
        equity_curve s' =
          equity_curve s @ (if tradable pd cfg d then [(d, current_capital s')] else []))
   \<and> ((\<exists>s0. init cfg pd = Inr s0) \<and> aligned pd cfg \<and> cfg_entry_threshold cfg \<noteq> 0
        \<and> (\<forall>x y. \<exists>b. lstsq lib x y = Inr b)
      \<longrightarrow> (\<exists>st'. backtest lib cfg pd = Inr st'))"
proof (intro conjI impI allI)
  assume b: "backtest lib cfg pd = Inr st"
  note r = backtest_result [OF b]
  from r show "get_common_dates pd = Inr (dates st)" by simp
  with get_common_dates_result
  show "sorted (dates st)" "distinct (dates st)"
    "set (dates st) = (\<Inter>df \<in> snd ` set pd. timestamp ` set df)"
    by blast+
  from r show eq: "map fst (equity_curve st) = filter (tradable pd cfg) (dates st)" by simp
  have len: "length (equity_curve st) = length (filter (tradable pd cfg) (dates st))"
    using arg_cong [OF eq, of length] by simp
  then show "length (equity_curve st) \<le> length (dates st)" by simp
  show "length (equity_curve st) = length (dates st)
           \<longleftrightarrow> (\<forall>d \<in> set (dates st). tradable pd cfg d)"
    unfolding len by (metis filter_id_conv length_filter_less nat_neq_iff)
  show "snd (last (equity_curve st)) = current_capital st" if "equity_curve st \<noteq> []"
    using r that by simp
next
  fix s d s'
  assume "run_date lib cfg pd s d = Inr s'"
  then show "equity_curve s' =
          equity_curve s @ (if tradable pd cfg d then [(d, current_capital s')] else [])"
    by (rule run_date_equity(1))
next
  assume "(\<exists>s0. init cfg pd = Inr s0) \<and> aligned pd cfg \<and> cfg_entry_threshold cfg \<noteq> 0
        \<and> (\<forall>x y. \<exists>b. lstsq lib x y = Inr b)"
  then show "\<exists>st'. backtest lib cfg pd = Inr st'"
    using backtest_returns by blast
qed

lemma ex_aligned: "aligned ex_data ex_config"
  by (simp add: aligned_def ex_data_def ex_config_def ex_frame_timestamps)

lemma ex_tradable: "d < 253 \<Longrightarrow> tradable ex_data ex_config d"
  by (simp add: tradable_def ex_config_def has_price_def ex_price)

text \<open>
  The example run over 253 dates, none of them skipped.
\<close>

theorem equity_curve_samples_witness:
  "backtest ex_lib ex_config ex_data = Inr ex_final
   \<and> dates ex_final = [0..<253]
   \<and> map fst (equity_curve ex_final) = filter (tradable ex_data ex_config) (dates ex_final)
   \<and> length (equity_curve ex_final) = 253
   \<and> snd (last (equity_curve ex_final)) = current_capital ex_final
   \<and> (\<exists>s0. init ex_config ex_data = Inr s0) \<and> aligned ex_data ex_config
   \<and> cfg_entry_threshold ex_config \<noteq> 0 \<and> (\<forall>x y. \<exists>b. lstsq ex_lib x y = Inr b)"
  using equity_curve_samples [of ex_lib ex_config ex_data ex_final] ex_run ex_init ex_aligned
  by (simp add: ex_final_def) (simp add: ex_config_def ex_lib_def)

section \<open>Skipped dates and the sign of a closed trade\<close>

text \<open>
  C10. On a date on which a configured asset's close is 0, the check
  \<^verbatim>\<open>len(current_prices) < len(pairs)\<close> holds, so the iteration of \<^verbatim>\<open>run\<close> for that
  date leaves the state as it is (no pair is processed and no sample is appended), it
  returns when every configured asset has a frame, and the equity curve of a finished run
  has no sample for that date.
\<close>

theorem zero_price_date_skipped:
  assumes "asset \<in> set (cfg_pairs cfg)" and "get_price_at_date pd asset d = Inr (Some 0)"
  shows "(\<forall>cp. collect_prices pd d (cfg_pairs cfg) [] = Inr cp \<longrightarrow>
            length cp < length (cfg_pairs cfg))
     \<and> (\<forall>s s'. run_date lib cfg pd s d = Inr s' \<longrightarrow> s' = s)
     \<and> ((\<forall>a \<in> set (cfg_pairs cfg). map_of pd a \<noteq> None) \<longrightarrow>
            run_date lib cfg pd st d = Inr st)
     \<and> (\<forall>st'. backtest lib cfg pd = Inr st' \<longrightarrow> d \<notin> fst ` set (equity_curve st'))"
proof -
  have "\<not> has_price pd d asset" using assms(2) by (simp add: has_price_def)
  with assms(1) have nt: "\<not> tradable pd cfg d"
    by (auto simp: tradable_def list_all_iff)
  have g: "length cp < length (cfg_pairs cfg)"
    if "collect_prices pd d (cfg_pairs cfg) [] = Inr cp" for cp
    using collect_prices_guard [OF that] nt by simp
  have skip: "s' = s" if "run_date lib cfg pd s d = Inr s'" for s s'
    using run_date_equity(3) [OF that nt] .
  have ret: "run_date lib cfg pd st d = Inr st"
    if "\<forall>a \<in> set (cfg_pairs cfg). map_of pd a \<noteq> None"
  proof -
    from collect_prices_returns [OF that] obtain cp where
      cp: "collect_prices pd d (cfg_pairs cfg) [] = Inr cp" by blast
    with g [OF cp] show ?thesis by (simp add: run_date_def)
  qed
  have eq: "d \<notin> fst ` set (equity_curve st')" if "backtest lib cfg pd = Inr st'" for st'
  proof -
    from backtest_result [OF that]
    have "set (map fst (equity_curve st')) = set (filter (tradable pd cfg) (dates st'))"
      by simp
    with nt show ?thesis by auto
  qed
  from g skip ret eq show ?thesis by blast
qed

text \<open>
  Asset A closes at 0 on date 1 of the small example.
\<close>

theorem zero_price_date_skipped_witness:
  "''A'' \<in> set (cfg_pairs ex_config)
   \<and> get_price_at_date ex_zero_data ''A'' 1 = Inr (Some 0)
   \<and> collect_prices ex_zero_data 1 (cfg_pairs ex_config) [] = Inr [(''B'', 1)]
   \<and> run_date ex_lib ex_config ex_zero_data ex_zero_final 1 = Inr ex_zero_final
   \<and> backtest ex_lib ex_config ex_zero_data = Inr ex_zero_final
   \<and> 1 \<notin> fst ` set (equity_curve ex_zero_final)"
proof -
  have a: "''A'' \<in> set (cfg_pairs ex_config)" by (simp add: ex_config_def)
  have p: "get_price_at_date ex_zero_data ''A'' 1 = Inr (Some 0)"
    by (simp add: get_price_at_date_def ex_zero_data_def)
  have m: "\<forall>a \<in> set (cfg_pairs ex_config). map_of ex_zero_data a \<noteq> None"
    by (simp add: ex_config_def ex_zero_data_def)
  have c: "collect_prices ex_zero_data 1 (cfg_pairs ex_config) [] = Inr [(''B'', 1)]"
    by (simp add: ex_config_def get_price_at_date_def ex_zero_data_def)
  have b: "backtest ex_lib ex_config ex_zero_data = Inr ex_zero_final"
    by (simp add: ex_zero_run ex_zero_final_def)
  from zero_price_date_skipped [OF a p, of ex_lib ex_zero_final] a p m c b
  show ?thesis by simp
qed

lemma gross_sign:
  fixes q e x :: real
  assumes "e \<noteq> 0" "0 < q"
  shows "0 < q * ((x - e) / \<bar>e\<bar>) \<longleftrightarrow> e < x" "0 < - q * ((x - e) / \<bar>e\<bar>) \<longleftrightarrow> x < e"
  using assms
  by (auto simp: zero_less_mult_iff zero_less_divide_iff mult_less_0_iff divide_less_0_iff)

text \<open>
  C4 as stated fails. A LONG trade entered at 100 with size 1000 and closed at 101 under
  a commission rate of 0.001 pays fees of 100 and has a net result of -90. With an entry
  price of 0, or with a size of 0, the net result is 0 whatever the exit price.
\<close>

theorem net_pnl_sign_counterexample:
  "close_trade ex_config (ex_state [((''A'', ''B''), ex_trade LONG 100 1000)]) ''A'' ''B'' 1 101
     = Inr ((ex_state [((''A'', ''B''), ex_trade LONG 100 1000)])
              \<lparr>current_capital := 99910,
               trades := [close (ex_trade LONG 100 1000) 1 101 1000 100],
               open_positions := []\<rparr>)
   \<and> side (close (ex_trade LONG 100 1000) 1 101 1000 100) = LONG
   \<and> entry_price (close (ex_trade LONG 100 1000) 1 101 1000 100) = 100
   \<and> exit_price (close (ex_trade LONG 100 1000) 1 101 1000 100) = Some 101
   \<and> net_pnl (close (ex_trade LONG 100 1000) 1 101 1000 100) = Some (-90)
   \<and> \<not> (0 < trade_net_pnl (close (ex_trade LONG 100 1000) 1 101 1000 100) \<longleftrightarrow> (100::real) < 101)
   \<and> net_pnl (close (ex_trade LONG 0 1000) 1 1 1000 0) = Some 0
   \<and> \<not> (0 < trade_net_pnl (close (ex_trade LONG 0 1000) 1 1 1000 0) \<longleftrightarrow> (0::real) < 1)
   \<and> net_pnl (close (ex_trade SHORT 100 0) 1 99 0 0) = Some 0
   \<and> \<not> (0 < trade_net_pnl (close (ex_trade SHORT 100 0) 1 99 0 0) \<longleftrightarrow> (99::real) < 100)"
  by (simp add: close_trade_def ex_config_def ex_state_def ex_trade_def new_Trade_def close_def
      trade_net_pnl_def)

text \<open>
  C4, amended. Closing an open position whose entry spread price is not zero and whose
  size is positive records a trade whose gross result follows the side convention (LONG:
  positive exactly when the exit spread price is above the entry spread price; SHORT:
  positive exactly when it is below), and whose net result is the gross result minus the
  fees \<open>entry_price * entry_quantity * commission_pct\<close>; with a commission rate of zero the
  net result follows the side convention.
\<close>

theorem net_pnl_sign_convention:
  assumes "map_of (open_positions st) (pair1, pair2) = Some t"
    and "entry_price t \<noteq> 0" and "0 < entry_quantity t"
  shows "\<exists>t' g. close_trade cfg st pair1 pair2 date x
            = Inr (st\<lparr>current_capital := current_capital st + trade_net_pnl t',
                      trades := trades st @ [t'],
                      open_positions := AList.delete (pair1, pair2) (open_positions st)\<rparr>)
     \<and> t' = close t date x (entry_quantity t)
              (entry_price t * entry_quantity t * cfg_commission_pct cfg)
     \<and> exit_price t' = Some x \<and> entry_price t' = entry_price t \<and> side t' = side t
     \<and> gross_pnl t' = Some g
     \<and> net_pnl t' = Some (g - entry_price t * entry_quantity t * cfg_commission_pct cfg)
     \<and> (side t = LONG \<longrightarrow> (0 < g \<longleftrightarrow> entry_price t < x))
     \<and> (side t = SHORT \<longrightarrow> (0 < g \<longleftrightarrow> x < entry_price t))
     \<and> (cfg_commission_pct cfg = 0 \<longrightarrow>
          (side t = LONG \<longrightarrow> (0 < trade_net_pnl t' \<longleftrightarrow> entry_price t < x))
        \<and> (side t = SHORT \<longrightarrow> (0 < trade_net_pnl t' \<longleftrightarrow> x < entry_price t)))"
proof -
  let ?fees = "entry_price t * entry_quantity t * cfg_commission_pct cfg"
  let ?t' = "close t date x (entry_quantity t) ?fees"
  have sd: "side t = LONG \<or> side t = SHORT" by (cases "side t") auto
  show ?thesis
    apply (rule exI [of _ ?t'])
    apply (rule exI [of _ "(if side t = LONG then 1 else -1) * entry_quantity t
                             * ((x - entry_price t) / \<bar>entry_price t\<bar>)"])
    using close_trade_result [OF assms(1), where cfg = cfg and d = date and x = x] sd assms(2,3)
      gross_sign [OF assms(2,3), of x]
    by (auto simp: close_fields trade_net_pnl_def)
qed

text \<open>
  A SHORT position entered at 4 with size 2000 and closed at 3 without commission gains
  500.
\<close>

theorem net_pnl_sign_convention_witness:
  "map_of (open_positions (ex_state [((''A'', ''B''), ex_trade SHORT 4 2000)])) (''A'', ''B'')
     = Some (ex_trade SHORT 4 2000)
   \<and> entry_price (ex_trade SHORT 4 2000) \<noteq> 0 \<and> 0 < entry_quantity (ex_trade SHORT 4 2000)
   \<and> (\<exists>t' g. close_trade (ex_config\<lparr>cfg_commission_pct := 0\<rparr>)
                (ex_state [((''A'', ''B''), ex_trade SHORT 4 2000)]) ''A'' ''B'' 1 3
            = Inr ((ex_state [((''A'', ''B''), ex_trade SHORT 4 2000)])
                     \<lparr>current_capital := 100000 + trade_net_pnl t',
                      trades := [t'], open_positions := []\<rparr>)
        \<and> gross_pnl t' = Some g \<and> net_pnl t' = Some g \<and> g = 500
        \<and> (0 < g \<longleftrightarrow> (3::real) < 4) \<and> (0 < trade_net_pnl t' \<longleftrightarrow> (3::real) < 4))"
proof -
  have a: "map_of (open_positions (ex_state [((''A'', ''B''), ex_trade SHORT 4 2000)]))
             (''A'', ''B'') = Some (ex_trade SHORT 4 2000)"
    by (simp add: ex_state_def)
  have b: "entry_price (ex_trade SHORT 4 2000) \<noteq> 0" "0 < entry_quantity (ex_trade SHORT 4 2000)"
    by (simp_all add: ex_trade_def new_Trade_def)
  from net_pnl_sign_convention [OF a b, where cfg = "ex_config\<lparr>cfg_commission_pct := 0\<rparr>"
      and date = 1 and x = 3]
  obtain t' g where
    "close_trade (ex_config\<lparr>cfg_commission_pct := 0\<rparr>)
        (ex_state [((''A'', ''B''), ex_trade SHORT 4 2000)]) ''A'' ''B'' 1 3
      = Inr ((ex_state [((''A'', ''B''), ex_trade SHORT 4 2000)])
               \<lparr>current_capital := current_capital (ex_state [((''A'', ''B''), ex_trade SHORT 4 2000)])
                    + trade_net_pnl t',
                trades := trades (ex_state [((''A'', ''B''), ex_trade SHORT 4 2000)]) @ [t'],
                open_positions := AList.delete (''A'', ''B'')
                    (open_positions (ex_state [((''A'', ''B''), ex_trade SHORT 4 2000)]))\<rparr>)"
    and "t' = close (ex_trade SHORT 4 2000) 1 3 (entry_quantity (ex_trade SHORT 4 2000))
              (entry_price (ex_trade SHORT 4 2000) * entry_quantity (ex_trade SHORT 4 2000)
                 * cfg_commission_pct (ex_config\<lparr>cfg_commission_pct := 0\<rparr>))"
    and "gross_pnl t' = Some g"
    by blast
  then show ?thesis using a b
    apply (intro conjI)
       apply assumption+
    apply (rule exI [of _ t'], rule exI [of _ g])
    apply (simp add: ex_state_def ex_trade_def new_Trade_def close_def trade_net_pnl_def
        ex_config_def)
    done
qed

section \<open>Round trip, a failing stationarity test and the profit factor of a run\<close>

text \<open>
  C5. A trade closed at its entry spread price without fees has a net result of exactly
  0, for every entry price, side and size; and with a commission rate of zero, opening a
  position and closing it at the same spread price records a trade with gross and net
  result 0 and leaves the capital as it was.
\<close>

theorem round_trip_zero_pnl:
  "net_pnl (close (new_Trade tid pr sd d x qty h) d' x qty 0) = Some 0
   \<and> (cfg_commission_pct cfg = 0 \<longrightarrow>
        (\<exists>t'. close_trade cfg (open_trade cfg st p1 p2 sd d x h) p1 p2 d' x
                 = Inr ((open_trade cfg st p1 p2 sd d x h)
                          \<lparr>current_capital := current_capital st,
                           trades := trades st @ [t'],
                           open_positions := AList.delete (p1, p2) (open_positions st)\<rparr>)
           \<and> side t' = sd \<and> entry_price t' = x \<and> exit_price t' = Some x
           \<and> entry_quantity t' = calculate_position_size cfg (current_capital st)
           \<and> gross_pnl t' = Some 0 \<and> net_pnl t' = Some 0))"
proof -
  let ?t = "new_Trade (next_trade_id st) (p1, p2) sd d x
              (calculate_position_size cfg (current_capital st)) h"
  have m: "map_of (open_positions (open_trade cfg st p1 p2 sd d x h)) (p1, p2) = Some ?t"
    by (simp add: open_trade_def Let_def AList.update_conv')
  have f: "entry_price ?t = x" "side ?t = sd"
    "entry_quantity ?t = calculate_position_size cfg (current_capital st)"
    by (simp_all add: new_Trade_def)
  have 1: "net_pnl (close (new_Trade tid pr sd d x qty h) d' x qty 0) = Some 0"
    by (simp add: close_fields new_Trade_def)
  have 2: "\<exists>t'. close_trade cfg (open_trade cfg st p1 p2 sd d x h) p1 p2 d' x
                 = Inr ((open_trade cfg st p1 p2 sd d x h)
                          \<lparr>current_capital := current_capital st,
                           trades := trades st @ [t'],
                           open_positions := AList.delete (p1, p2) (open_positions st)\<rparr>)
           \<and> side t' = sd \<and> entry_price t' = x \<and> exit_price t' = Some x
           \<and> entry_quantity t' = calculate_position_size cfg (current_capital st)
           \<and> gross_pnl t' = Some 0 \<and> net_pnl t' = Some 0"
    if c: "cfg_commission_pct cfg = 0"
    apply (rule exI [of _ "close ?t d' x (entry_quantity ?t) 0"])
    unfolding close_trade_result [OF m]
    by (simp add: c close_fields trade_net_pnl_def new_Trade_def open_trade_def Let_def
        AList.delete_update_same)
  from 1 2 show ?thesis by blast
qed

text \<open>
  A LONG position of size 2000 opened and closed at a spread price of 3.
\<close>

theorem round_trip_zero_pnl_witness:
  "cfg_commission_pct (ex_config\<lparr>cfg_commission_pct := 0\<rparr>) = 0
   \<and> net_pnl (close (new_Trade 0 (''A'', ''B'') LONG 5 3 2000 1) 5 3 2000 0) = Some 0
   \<and> (\<exists>t'. close_trade (ex_config\<lparr>cfg_commission_pct := 0\<rparr>)
              (open_trade (ex_config\<lparr>cfg_commission_pct := 0\<rparr>) (ex_state [])
                 ''A'' ''B'' LONG 5 3 1) ''A'' ''B'' 5 3
            = Inr ((ex_state [])\<lparr>trades := [t'], next_trade_id := 1\<rparr>)
        \<and> entry_quantity t' = 2000 \<and> net_pnl t' = Some 0)"
proof -
  have c: "cfg_commission_pct (ex_config\<lparr>cfg_commission_pct := 0\<rparr>) = 0" by simp
  from round_trip_zero_pnl [of 0 "(''A'', ''B'')" LONG 5 3 2000 1 5
      "ex_config\<lparr>cfg_commission_pct := 0\<rparr>" "ex_state []" "''A''" "''B''"] c
  obtain t' where n: "net_pnl (close (new_Trade 0 (''A'', ''B'') LONG 5 3 2000 1) 5 3 2000 0)
       = Some 0"
    and r: "close_trade (ex_config\<lparr>cfg_commission_pct := 0\<rparr>)
              (open_trade (ex_config\<lparr>cfg_commission_pct := 0\<rparr>) (ex_state [])
                 ''A'' ''B'' LONG 5 3 1) ''A'' ''B'' 5 3
            = Inr ((open_trade (ex_config\<lparr>cfg_commission_pct := 0\<rparr>) (ex_state [])
                      ''A'' ''B'' LONG 5 3 1)
                     \<lparr>current_capital := current_capital (ex_state []),
                      trades := trades (ex_state []) @ [t'],
                      open_positions := AList.delete (''A'', ''B'') (open_positions (ex_state []))\<rparr>)"
    and q: "entry_quantity t' = calculate_position_size (ex_config\<lparr>cfg_commission_pct := 0\<rparr>)
               (current_capital (ex_state []))"
    and z: "net_pnl t' = Some 0"
    by blast
  show ?thesis
    apply (intro conjI)
      apply (rule c)
     apply (rule n)
    apply (rule exI [of _ t'])
    using r q z
    apply (simp add: open_trade_def Let_def ex_state_def calculate_position_size_def
        ex_config_def)
    done
qed

text \<open>
  C8. When \<^verbatim>\<open>adfuller\<close> raises on the spread of the test window,
  \<^verbatim>\<open>test_cointegration\<close> returns a result with \<open>cointegrated = False\<close>, the reason
  \<^verbatim>\<open>'ADF test failed'\<close> under \<^verbatim>\<open>error\<close>, and \<^verbatim>\<open>None\<close> for the p-value, the spread
  mean and the spread standard deviation; the exception's message goes to the log. A call
  of \<^verbatim>\<open>_process_pair\<close> whose test fails in this way returns with the state unchanged,
  so the run goes on and the pair is not traded on that date.
\<close>

theorem adf_failure_not_cointegrated:
  assumes "calculate_hedge_ratio lib (if length p1 > lb then last_n lb p1 else p1)
             (if length p1 > lb then last_n lb p2 else p2) = Inr h"
    and "calculate_spread_arr (if length p1 > lb then last_n lb p1 else p1)
             (if length p1 > lb then last_n lb p2 else p2) h = Inr sp"
    and "adfuller lib sp None = Inl msg"
  shows "test_cointegration lib ct p1 p2 lb =
       Inr (\<lparr>cointegrated = False, adf_pvalue = None, coint_adf_statistic = None,
             hedge_ratio = h, spread_mean = None, spread_std = None,
             lookback_periods = None, coint_critical_values = None,
             coint_error = Some ''ADF test failed''\<rparr>,
            [LogError (''ADF test failed: '' @ msg)])
     \<and> (\<forall>cfg pd st a b d cp df1 df2.
          map_of pd a = Some df1 \<and> map_of pd b = Some df2
          \<and> p1 = map close_price (filter (\<lambda>r. timestamp r \<le> d) df1)
          \<and> p2 = map close_price (filter (\<lambda>r. timestamp r \<le> d) df2)
          \<and> lb = 252
          \<longrightarrow> process_pair lib cfg pd st a b d cp = Inr st)"
proof -
  have t: "test_cointegration lib ct p1 p2 lb =
       Inr (\<lparr>cointegrated = False, adf_pvalue = None, coint_adf_statistic = None,
             hedge_ratio = h, spread_mean = None, spread_std = None,
             lookback_periods = None, coint_critical_values = None,
             coint_error = Some ''ADF test failed''\<rparr>,
            [LogError (''ADF test failed: '' @ msg)])" for ct
    unfolding test_cointegration_eval [OF assms(1,2)] by (simp add: assms(3))
  have "process_pair lib cfg pd st a b d cp = Inr st"
    if "map_of pd a = Some df1" "map_of pd b = Some df2"
      "p1 = map close_price (filter (\<lambda>r. timestamp r \<le> d) df1)"
      "p2 = map close_price (filter (\<lambda>r. timestamp r \<le> d) df2)" "lb = 252"
    for cfg pd st a b d cp df1 df2
    using that t [of "coint_tester cfg"]
    by (simp add: process_pair_def Let_def del: length_map)
  with t show ?thesis by blast
qed

text \<open>
  A library whose \<^verbatim>\<open>adfuller\<close> always raises, on day 251 of the example data.
\<close>

theorem adf_failure_not_cointegrated_witness:
  "adfuller ex_fail_lib
      (map (\<lambda>(a, b). calculate_spread a b 1) (zip (ex_history ''A'' 251) (ex_history ''B'' 251)))
      None = Inl ''sample size is too short''
   \<and> test_cointegration ex_fail_lib (coint_tester ex_config)
        (ex_history ''A'' 251) (ex_history ''B'' 251) 252 =
       Inr (\<lparr>cointegrated = False, adf_pvalue = None, coint_adf_statistic = None,
             hedge_ratio = 1, spread_mean = None, spread_std = None,
             lookback_periods = None, coint_critical_values = None,
             coint_error = Some ''ADF test failed''\<rparr>,
            [LogError ''ADF test failed: sample size is too short''])
   \<and> process_pair ex_fail_lib ex_config ex_data ex_mid ''A'' ''B'' 251
        [(''A'', 11), (''B'', 7)] = Inr ex_mid"
proof -
  let ?p1 = "ex_history ''A'' 251" and ?p2 = "ex_history ''B'' 251"
  let ?sp = "map (\<lambda>(a, b). calculate_spread a b 1) (zip ?p1 ?p2)"
  have len: "length ?p1 = 252" "length ?p2 = 252"
    by (simp_all add: ex_history_def ex_data_def ex_frame_upto)
  have h: "calculate_hedge_ratio ex_fail_lib (if length ?p1 > 252 then last_n 252 ?p1 else ?p1)
             (if length ?p1 > 252 then last_n 252 ?p2 else ?p2) = Inr 1"
    by (simp add: calculate_hedge_ratio_def ex_fail_lib_def ex_lib_def)
  have sp: "calculate_spread_arr (if length ?p1 > 252 then last_n 252 ?p1 else ?p1)
             (if length ?p1 > 252 then last_n 252 ?p2 else ?p2) 1 = Inr ?sp"
    using len by (simp add: calculate_spread_arr_def)
  have f: "adfuller ex_fail_lib ?sp None = Inl ''sample size is too short''"
    by (simp add: ex_fail_lib_def)
  have m: "map_of ex_data ''A'' = Some (ex_frame (\<lambda>i. if i = 251 then 11 else 7) 253)"
    "map_of ex_data ''B'' = Some (ex_frame (\<lambda>i. 7) 253)"
    by (simp_all add: ex_data_def)
  have p: "?p1 = map close_price (filter (\<lambda>r. timestamp r \<le> 251)
                   (ex_frame (\<lambda>i. if i = 251 then 11 else 7) 253))"
    "?p2 = map close_price (filter (\<lambda>r. timestamp r \<le> 251) (ex_frame (\<lambda>i. 7) 253))"
    by (simp_all add: ex_history_def m)
  from adf_failure_not_cointegrated [OF h sp f, of "coint_tester ex_config"] m p f
  show ?thesis by simp
qed

text \<open>
  C9. For a trade log whose trades all carry a net result, the profit factor is gross
  profit over gross loss when the gross loss is not zero; when it is zero, the profit
  factor is gross profit over 0.01 if the gross profit is positive and 0 otherwise. The
  trade log of every reachable state of the engine is such a log.
\<close>

theorem profit_factor_value:
  "((\<forall>t \<in> set ts. d_net_pnl t \<noteq> None) \<longrightarrow>
      calculate_profit_factor ts =
        Inr (if gross_loss_of ts \<noteq> 0 then gross_profit_of ts / gross_loss_of ts
             else if gross_profit_of ts > 0 then gross_profit_of ts / 0.01
             else 0))
   \<and> (reachable lib cfg pd st \<longrightarrow>
        calculate_profit_factor (map to_dict (trades st)) =
          Inr (if gross_loss_of (map to_dict (trades st)) \<noteq> 0
               then gross_profit_of (map to_dict (trades st))
                      / gross_loss_of (map to_dict (trades st))
               else if gross_profit_of (map to_dict (trades st)) > 0
               then gross_profit_of (map to_dict (trades st)) / 0.01
               else 0))"
proof (intro conjI impI)
  assume "\<forall>t \<in> set ts. d_net_pnl t \<noteq> None"
  then show "calculate_profit_factor ts =
        Inr (if gross_loss_of ts \<noteq> 0 then gross_profit_of ts / gross_loss_of ts
             else if gross_profit_of ts > 0 then gross_profit_of ts / 0.01
             else 0)"
    by (rule profit_factor_eval)
next
  assume "reachable lib cfg pd st"
  from reachable_inv [OF this] have "\<forall>t \<in> set (trades st). net_pnl t \<noteq> None"
    by (simp add: capital_inv_def)
  then have "\<forall>t \<in> set (map to_dict (trades st)). d_net_pnl t \<noteq> None"
    by (auto simp: to_dict_def)
  then show "calculate_profit_factor (map to_dict (trades st)) =
          Inr (if gross_loss_of (map to_dict (trades st)) \<noteq> 0
               then gross_profit_of (map to_dict (trades st))
                      / gross_loss_of (map to_dict (trades st))
               else if gross_profit_of (map to_dict (trades st)) > 0
               then gross_profit_of (map to_dict (trades st)) / 0.01
               else 0)"
    by (rule profit_factor_eval)
qed

text \<open>
  A log with one winning trade of 100: gross profit 100, gross loss 0, profit factor
  10000. The empty log: 0. A win of 100 and a loss of 50: 2. The log of the example run,
  one win of 1992: 199200.
\<close>

theorem profit_factor_value_witness:
  "gross_profit_of [to_dict (close (ex_trade LONG 1 100) 1 2 100 0)] = 100
   \<and> gross_loss_of [to_dict (close (ex_trade LONG 1 100) 1 2 100 0)] = 0
   \<and> calculate_profit_factor [to_dict (close (ex_trade LONG 1 100) 1 2 100 0)] = Inr 10000
   \<and> calculate_profit_factor [] = Inr 0
   \<and> calculate_profit_factor [to_dict (close (ex_trade LONG 1 100) 1 2 100 0),
        to_dict (close (ex_trade SHORT 1 100) 1 1.5 100 0)] = Inr 2
   \<and> reachable ex_lib ex_config ex_data ex_final
   \<and> calculate_profit_factor (map to_dict (trades ex_final)) = Inr 199200"
  using profit_factor_value [of "[to_dict (close (ex_trade LONG 1 100) 1 2 100 0)]"
      ex_lib ex_config ex_data ex_final]
    profit_factor_value [of "[]" ex_lib ex_config ex_data ex_final]
    profit_factor_value [of "[to_dict (close (ex_trade LONG 1 100) 1 2 100 0),
        to_dict (close (ex_trade SHORT 1 100) 1 1.5 100 0)]" ex_lib ex_config ex_data ex_final]
    ex_final_reachable
  by (simp add: to_dict_def close_def ex_trade_def new_Trade_def gross_loss_of_def
      gross_profit_of_def ex_final_def ex_closed_def ex_open_def)

section \<open>Z-score\<close>








end
